theory Spec2Isabelle
  imports Complex_Main "HOL-Library.Char_ord" "HOL-Library.List_Lexorder"
begin

section \<open>Strings, integers, amounts and dates of the host language\<close>

text \<open>
  The program is Python. A Python \<open>str\<close> is a sequence of code points; here a string is a
  \<^typ>\<open>string\<close> whose characters are the code points 0 to 255 (Latin-1), the range in
  which every literal of \<open>app.py\<close> lies. \<open>str.strip\<close>, \<open>str.lower\<close> and
  \<open>str.replace\<close> are written out for that range.
\<close>

definition isspace :: "char \<Rightarrow> bool" where
  "isspace c \<longleftrightarrow> (of_char c :: nat) \<in> {9, 10, 11, 12, 13, 28, 29, 30, 31, 32, 133, 160}"

definition strip :: "string \<Rightarrow> string" where
  "strip s = rev (dropWhile isspace (rev (dropWhile isspace s)))"

definition lower_char :: "char \<Rightarrow> char" where
  "lower_char c =
     (let n = (of_char c :: nat)
      in if (65 \<le> n \<and> n \<le> 90) \<or> (192 \<le> n \<and> n \<le> 222 \<and> n \<noteq> 215)
         then char_of (n + 32) else c)"

definition lower :: "string \<Rightarrow> string" where
  "lower s = map lower_char s"

text \<open>\<open>s.replace(",", ".")\<close>: both patterns are one character long.\<close>

definition replace_comma :: "string \<Rightarrow> string" where
  "replace_comma s = map (\<lambda>c. if c = CHR '','' then CHR ''.'' else c) s"

definition is_digit :: "char \<Rightarrow> bool" where
  "is_digit c \<longleftrightarrow> 48 \<le> (of_char c :: nat) \<and> (of_char c :: nat) \<le> 57"

definition digit_val :: "char \<Rightarrow> nat" where
  "digit_val c = of_char c - 48"

text \<open>
  The digit part of Python's numeric literals in strings: a digit, then digits each
  optionally preceded by one underscore. \<open>digits_from acc s\<close> reads the rest of a digit
  part after a digit, \<open>acc\<close> being the value read so far.
\<close>

fun digits_from :: "nat \<Rightarrow> string \<Rightarrow> nat option" where
  "digits_from acc [] = Some acc"
| "digits_from acc (c # cs) =
     (if is_digit c then digits_from (acc * 10 + digit_val c) cs
      else if c = CHR ''_'' then
        (case cs of
           [] \<Rightarrow> None
         | d # ds \<Rightarrow> if is_digit d then digits_from (acc * 10 + digit_val d) ds else None)
      else None)"

definition digitpart :: "string \<Rightarrow> nat option" where
  "digitpart s =
     (case s of
        [] \<Rightarrow> None
      | c # cs \<Rightarrow> if is_digit c then digits_from (digit_val c) cs else None)"

text \<open>
  \<open>int(s)\<close> and \<open>float(s)\<close> skip whitespace before and after the literal, but not all that
  \<open>str.strip\<close> drops: a code point above 127 that is a space is taken for a blank, and of
  the others only the six of C's \<open>isspace\<close> are skipped. The separators U+001C to U+001F,
  which \<open>str.strip\<close> drops, are a \<open>ValueError\<close> to both.
\<close>

definition isspace_literal :: "char \<Rightarrow> bool" where
  "isspace_literal c \<longleftrightarrow> (of_char c :: nat) \<in> {9, 10, 11, 12, 13, 32, 133, 160}"

definition strip_literal :: "string \<Rightarrow> string" where
  "strip_literal s = rev (dropWhile isspace_literal (rev (dropWhile isspace_literal s)))"

text \<open>
  \<open>int(s)\<close> in base ten: that whitespace is skipped, one sign is allowed, the rest is a
  digit part. \<open>None\<close> stands for \<open>ValueError\<close>. Python's integers are unbounded; the
  interpreter's limit on the number of digits of a literal (4300 unless configured) is
  left out.
\<close>

definition int_py :: "string \<Rightarrow> int option" where
  "int_py s =
     (case strip_literal s of
        [] \<Rightarrow> None
      | c # cs \<Rightarrow>
          if c = CHR ''-'' then map_option (\<lambda>n. - int n) (digitpart cs)
          else if c = CHR ''+'' then map_option int (digitpart cs)
          else map_option int (digitpart (c # cs)))"

text \<open>\<open>str(n)\<close> of an integer.\<close>

definition digit_char :: "nat \<Rightarrow> char" where
  "digit_char d = ''0123456789'' ! d"

fun str_nat :: "nat \<Rightarrow> string" where
  "str_nat n =
     (if n < 10 then [digit_char n]
      else str_nat (n div 10) @ [digit_char (n mod 10)])"

declare str_nat.simps [simp del]

definition str_int :: "int \<Rightarrow> string" where
  "str_int i = (if i < 0 then CHR ''-'' # str_nat (nat (- i)) else str_nat (nat i))"

text \<open>
  \<open>float(s)\<close>. The result is the value the literal denotes, kept exact: a sign and a
  rational magnitude, an infinity, or a NaN. The rounding of that value to a binary
  double is not part of the model; whatever depends on it (the text of
  \<open>f"{valor:.2f}"\<close>) is a parameter \<open>fmt2f\<close> of the functions below.
\<close>

datatype pyfloat = Finite bool rat | Infinite bool | NaN

definition count_digits :: "string \<Rightarrow> nat" where
  "count_digits s = length (filter is_digit s)"

text \<open>
  The mantissa \<open>[digitpart] "." digitpart | digitpart ["."]\<close>: its value as a pair of a
  natural number and the number of digits behind the point.
\<close>

definition mantissa :: "string \<Rightarrow> (nat \<times> nat) option" where
  "mantissa m =
     (let ip = takeWhile (\<lambda>c. c \<noteq> CHR ''.'') m;
          rest = dropWhile (\<lambda>c. c \<noteq> CHR ''.'') m
      in case rest of
           [] \<Rightarrow> map_option (\<lambda>n. (n, 0)) (digitpart ip)
         | _ # fp \<Rightarrow>
             if fp = [] then map_option (\<lambda>n. (n, 0)) (digitpart ip)
             else
               (case digitpart fp of
                  None \<Rightarrow> None
                | Some f \<Rightarrow>
                    if ip = [] then Some (f, count_digits fp)
                    else
                      (case digitpart ip of
                         None \<Rightarrow> None
                       | Some i \<Rightarrow> Some (i * 10 ^ count_digits fp + f, count_digits fp))))"

definition exponent :: "string \<Rightarrow> int option" where
  "exponent e =
     (case e of
        [] \<Rightarrow> None
      | c # cs \<Rightarrow>
          if c = CHR ''-'' then map_option (\<lambda>n. - int n) (digitpart cs)
          else if c = CHR ''+'' then map_option int (digitpart cs)
          else map_option int (digitpart (c # cs)))"

definition scale10 :: "nat \<Rightarrow> int \<Rightarrow> rat" where
  "scale10 m e = (if 0 \<le> e then of_nat m * 10 ^ nat e else of_nat m / 10 ^ nat (- e))"

definition is_exp_mark :: "char \<Rightarrow> bool" where
  "is_exp_mark c \<longleftrightarrow> c = CHR ''e'' \<or> c = CHR ''E''"

definition absfloat :: "bool \<Rightarrow> string \<Rightarrow> pyfloat option" where
  "absfloat neg t =
     (if lower t = ''inf'' \<or> lower t = ''infinity'' then Some (Infinite neg)
      else if lower t = ''nan'' then Some NaN
      else
        (let m = takeWhile (\<lambda>c. \<not> is_exp_mark c) t;
             rest = dropWhile (\<lambda>c. \<not> is_exp_mark c) t
         in case mantissa m of
              None \<Rightarrow> None
            | Some (n, k) \<Rightarrow>
                (case rest of
                   [] \<Rightarrow> Some (Finite neg (scale10 n (- int k)))
                 | _ # e \<Rightarrow>
                     (case exponent e of
                        None \<Rightarrow> None
                      | Some x \<Rightarrow> Some (Finite neg (scale10 n (x - int k)))))))"

definition float_py :: "string \<Rightarrow> pyfloat option" where
  "float_py s =
     (case strip_literal s of
        [] \<Rightarrow> None
      | c # cs \<Rightarrow>
          if c = CHR ''-'' then absfloat True cs
          else if c = CHR ''+'' then absfloat False cs
          else absfloat False (c # cs))"

text \<open>
  \<open>datetime.strptime(s, "%Y-%m-%d")\<close>. The directive \<open>%Y\<close> is four digits, \<open>%m\<close> is
  \<open>1[0-2]|0[1-9]|[1-9]\<close> and \<open>%d\<close> is \<open>3[01]|[12]\d|0[1-9]|[1-9]| [1-9]\<close>, the first
  alternative that matches being taken; text left over after the day, a year 0 and a
  day the month does not have are each a \<open>ValueError\<close> (\<open>None\<close>).
\<close>

definition read_month :: "string \<Rightarrow> (nat \<times> string) option" where
  "read_month s =
     (case s of
        a # b # r \<Rightarrow>
          if a = CHR ''1'' \<and> b \<in> {CHR ''0'', CHR ''1'', CHR ''2''}
            then Some (10 + digit_val b, r)
          else if a = CHR ''0'' \<and> is_digit b \<and> b \<noteq> CHR ''0'' then Some (digit_val b, r)
          else if is_digit a \<and> a \<noteq> CHR ''0'' then Some (digit_val a, b # r)
          else None
      | [a] \<Rightarrow> if is_digit a \<and> a \<noteq> CHR ''0'' then Some (digit_val a, []) else None
      | [] \<Rightarrow> None)"

definition read_day :: "string \<Rightarrow> (nat \<times> string) option" where
  "read_day s =
     (case s of
        a # b # r \<Rightarrow>
          if a = CHR ''3'' \<and> b \<in> {CHR ''0'', CHR ''1''} then Some (30 + digit_val b, r)
          else if a \<in> {CHR ''1'', CHR ''2''} \<and> is_digit b
            then Some (10 * digit_val a + digit_val b, r)
          else if a = CHR ''0'' \<and> is_digit b \<and> b \<noteq> CHR ''0'' then Some (digit_val b, r)
          else if is_digit a \<and> a \<noteq> CHR ''0'' then Some (digit_val a, b # r)
          else if a = CHR '' '' \<and> is_digit b \<and> b \<noteq> CHR ''0'' then Some (digit_val b, r)
          else None
      | [a] \<Rightarrow> if is_digit a \<and> a \<noteq> CHR ''0'' then Some (digit_val a, []) else None
      | [] \<Rightarrow> None)"

definition is_leap :: "nat \<Rightarrow> bool" where
  "is_leap y \<longleftrightarrow> y mod 4 = 0 \<and> (y mod 100 \<noteq> 0 \<or> y mod 400 = 0)"

definition days_in_month :: "nat \<Rightarrow> nat \<Rightarrow> nat" where
  "days_in_month y m =
     (if m = 2 then (if is_leap y then 29 else 28)
      else if m \<in> {4, 6, 9, 11} then 30 else 31)"

definition strptime :: "string \<Rightarrow> (nat \<times> nat \<times> nat) option" where
  "strptime s =
     (case s of
        y1 # y2 # y3 # y4 # dash1 # r1 \<Rightarrow>
          if is_digit y1 \<and> is_digit y2 \<and> is_digit y3 \<and> is_digit y4 \<and> dash1 = CHR ''-''
          then
            (case read_month r1 of
               None \<Rightarrow> None
             | Some (m, r2) \<Rightarrow>
                 (case r2 of
                    [] \<Rightarrow> None
                  | dash2 # r3 \<Rightarrow>
                      if dash2 = CHR ''-'' then
                        (case read_day r3 of
                           None \<Rightarrow> None
                         | Some (d, r4) \<Rightarrow>
                             (let y = 1000 * digit_val y1 + 100 * digit_val y2
                                      + 10 * digit_val y3 + digit_val y4
                              in if r4 = [] \<and> 1 \<le> y \<and> d \<le> days_in_month y m
                                 then Some (y, m, d) else None))
                      else None))
          else None
      | _ \<Rightarrow> None)"

text \<open>
  \<open>strftime("%Y-%m-%d")\<close>: month and day take two digits. The year is written with four
  digits; for years below 1000 the platform's C library decides the padding, and nothing
  below depends on it.
\<close>

definition pad :: "nat \<Rightarrow> string \<Rightarrow> string" where
  "pad w t = replicate (w - length t) CHR ''0'' @ t"

definition strftime :: "nat \<times> nat \<times> nat \<Rightarrow> string" where
  "strftime ymd =
     (case ymd of (y, m, d) \<Rightarrow>
        pad 4 (str_nat y) @ ''-'' @ pad 2 (str_nat m) @ ''-'' @ pad 2 (str_nat d))"


section \<open>The two files and the exceptions\<close>

text \<open>
  A file is the list of rows that \<open>csv.reader\<close> yields from it and \<open>csv.writer\<close> puts
  into it: the quoting of cells is below this model, and every row ends with its line
  terminator, as the writer leaves it. A file that does not exist is \<open>None\<close>. The journal
  records, oldest first, each time a file is opened for writing (\<open>"w"\<close>) or for appending
  (\<open>"a"\<close>).
\<close>

type_synonym row = "string list"
type_synonym csv_file = "row list"

datatype path = CATEGORIES_FILE | EXPENSES_FILE

datatype event = Wrote path | Appended path

datatype error = ValueError | AttributeError | FileNotFoundError

record storage =
  categories_file :: "csv_file option"
  expenses_file :: "csv_file option"
  journal :: "event list"

text \<open>
  A call either raises, and the storage is what it was at the raise, or returns a value
  and the storage it leaves.
\<close>

type_synonym 'a result = "(error \<times> storage) + ('a \<times> storage)"

definition contents :: "path \<Rightarrow> storage \<Rightarrow> csv_file option" where
  "contents p s = (case p of CATEGORIES_FILE \<Rightarrow> categories_file s | EXPENSES_FILE \<Rightarrow> expenses_file s)"

definition open_w :: "path \<Rightarrow> csv_file \<Rightarrow> storage \<Rightarrow> storage" where
  "open_w p rows s =
     (case p of
        CATEGORIES_FILE \<Rightarrow> s\<lparr>categories_file := Some rows, journal := journal s @ [Wrote p]\<rparr>
      | EXPENSES_FILE \<Rightarrow> s\<lparr>expenses_file := Some rows, journal := journal s @ [Wrote p]\<rparr>)"

definition open_a :: "path \<Rightarrow> csv_file \<Rightarrow> storage \<Rightarrow> storage" where
  "open_a p rows s =
     (let old = (case contents p s of None \<Rightarrow> [] | Some rs \<Rightarrow> rs)
      in case p of
           CATEGORIES_FILE \<Rightarrow>
             s\<lparr>categories_file := Some (old @ rows), journal := journal s @ [Appended p]\<rparr>
         | EXPENSES_FILE \<Rightarrow>
             s\<lparr>expenses_file := Some (old @ rows), journal := journal s @ [Appended p]\<rparr>)"

text \<open>
  \<open>csv.DictReader\<close>: the first row gives the field names, empty rows after it are
  skipped, and a row becomes the dictionary \<open>dict(zip(fieldnames, row))\<close>, in which the
  field names the row is too short for are bound to Python's \<open>None\<close>. A dictionary is the
  list of its bindings, a later one overriding an earlier one; a value is \<open>Some\<close> string
  or \<open>None\<close> for Python's \<open>None\<close>.
\<close>

type_synonym pydict = "(string \<times> string option) list"

definition dict_of_row :: "row \<Rightarrow> row \<Rightarrow> pydict" where
  "dict_of_row fieldnames r =
     zip fieldnames (map Some r) @ map (\<lambda>k. (k, None)) (drop (length r) fieldnames)"

definition DictReader :: "csv_file \<Rightarrow> pydict list" where
  "DictReader rows =
     (case rows of
        [] \<Rightarrow> []
      | fieldnames # rest \<Rightarrow> map (dict_of_row fieldnames) (filter (\<lambda>r. r \<noteq> []) rest))"

text \<open>\<open>d.get(k, dflt)\<close>.\<close>

definition get :: "pydict \<Rightarrow> string \<Rightarrow> string option \<Rightarrow> string option" where
  "get d k dflt = (case map_of (rev d) k of None \<Rightarrow> dflt | Some v \<Rightarrow> v)"

record category =
  cid :: string
  nome :: string

record expense =
  eid :: string
  data :: string
  descricao :: string
  valor :: string
  categoria_id :: string
  anotacao :: string

definition categories_header :: row where
  "categories_header = [''id'', ''nome'']"

definition expenses_header :: row where
  "expenses_header = [''id'', ''data'', ''descricao'', ''valor'', ''categoria_id'', ''anotacao'']"

text \<open>The filter \<open>any(cell.strip() for cell in row)\<close> of both upgrade functions.\<close>

definition nonblank :: "row \<Rightarrow> bool" where
  "nonblank r = list_ex (\<lambda>cell. strip cell \<noteq> []) r"

section \<open>Creation and migration of the files\<close>

text \<open>The first loop of \<open>upgrade_categories_file\<close> (lines 57 to 62).\<close>

fun legacy_names :: "row list \<Rightarrow> string list" where
  "legacy_names [] = []"
| "legacy_names (r # rs) =
     (case r of
        [] \<Rightarrow> legacy_names rs
      | cell # _ \<Rightarrow> if strip cell \<noteq> [] then strip cell # legacy_names rs else legacy_names rs)"

text \<open>
  Its second loop (lines 64 to 69), from a given \<open>seen\<close>: the final \<open>seen\<close> and the
  names in the order of their first occurrence.
\<close>

fun normalize :: "string set \<Rightarrow> string list \<Rightarrow> string set \<times> string list" where
  "normalize seen [] = (seen, [])"
| "normalize seen (name # names) =
     (if name \<notin> seen
      then (case normalize (insert name seen) names of (seen', ns) \<Rightarrow> (seen', name # ns))
      else normalize seen names)"

text \<open>\<open>enumerate(names, start=1)\<close> written as rows \<open>[str(idx), name]\<close>.\<close>

definition numbered_rows :: "string list \<Rightarrow> row list" where
  "numbered_rows names = map (\<lambda>(idx, name). [str_int (int idx), name]) (enumerate 1 names)"

definition upgrade_categories_file :: "storage \<Rightarrow> unit result" where
  "upgrade_categories_file s =
     (case categories_file s of
        None \<Rightarrow> Inl (FileNotFoundError, s)
      | Some file \<Rightarrow>
          (case filter nonblank file of
             [] \<Rightarrow> Inr ((), open_w CATEGORIES_FILE [[''id'', ''nome''], [''1'', ''Outros'']] s)
           | first # rest \<Rightarrow>
               (let header = map strip first
                in if header \<noteq> [] \<and> hd header = ''id'' then Inr ((), s)
                   else
                     (case normalize {} (legacy_names rest) of
                        (seen, normalized_names) \<Rightarrow>
                          (let names = (if ''Outros'' \<notin> seen then ''Outros'' # normalized_names
                                        else normalized_names)
                           in Inr ((), open_w CATEGORIES_FILE
                                         ([''id'', ''nome''] # numbered_rows names) s))))))"

text \<open>\<open>load_categories_for_upgrade\<close>: it reads the file as it is, and raises nothing.\<close>

definition truthy :: "string option \<Rightarrow> bool" where
  "truthy v = (case v of None \<Rightarrow> False | Some t \<Rightarrow> t \<noteq> [])"

definition text_of :: "string option \<Rightarrow> string" where
  "text_of v = (case v of None \<Rightarrow> [] | Some t \<Rightarrow> t)"

definition load_categories_for_upgrade :: "storage \<Rightarrow> category list" where
  "load_categories_for_upgrade s =
     (case categories_file s of
        None \<Rightarrow> []
      | Some file \<Rightarrow>
          map (\<lambda>d. \<lparr>cid = strip (text_of (get d ''id'' (Some ''''))),
                    nome = strip (text_of (get d ''nome'' (Some '''')))\<rparr>)
            (filter (\<lambda>d. truthy (get d ''id'' None) \<and> truthy (get d ''nome'' None))
               (DictReader file)))"

text \<open>
  \<open>int(c["id"]) for c in categories\<close>, as \<open>max\<close> consumes it: the first id that is not
  an integer raises \<open>ValueError\<close> (\<open>None\<close>).
\<close>

fun int_ids :: "category list \<Rightarrow> int list option" where
  "int_ids [] = Some []"
| "int_ids (c # cs) =
     (case int_py (cid c) of
        None \<Rightarrow> None
      | Some i \<Rightarrow> (case int_ids cs of None \<Rightarrow> None | Some is \<Rightarrow> Some (i # is)))"

text \<open>\<open>max(xs, default=d)\<close>.\<close>

fun max_default :: "int list \<Rightarrow> int \<Rightarrow> int" where
  "max_default [] d = d"
| "max_default (x # xs) d = fold max xs x"

record legacy_expense =
  l_data :: string
  l_descricao :: string
  l_valor :: string
  l_categoria :: string
  l_anotacao :: string

text \<open>The loop over \<open>rows[1:]\<close> of \<open>upgrade_expenses_file\<close> (lines 116 to 127).\<close>

fun old_rows :: "row list \<Rightarrow> legacy_expense list" where
  "old_rows [] = []"
| "old_rows (r # rs) =
     (if length r < 5 then old_rows rs
      else \<lparr>l_data = strip (r ! 0), l_descricao = strip (r ! 1), l_valor = strip (r ! 2),
             l_categoria = (if strip (r ! 3) = [] then ''Outros'' else strip (r ! 3)),
             l_anotacao = strip (r ! 4)\<rparr> # old_rows rs)"

text \<open>
  Its main loop (lines 135 to 152), with \<open>name_to_id\<close>, \<open>next_category_id\<close> and the
  running index as arguments: the new categories and the new rows.
\<close>

fun migrate_rows ::
  "(string \<rightharpoonup> string) \<Rightarrow> int \<Rightarrow> nat \<Rightarrow> legacy_expense list \<Rightarrow> (string \<times> string) list \<times> row list"
where
  "migrate_rows name_to_id next_category_id idx [] = ([], [])"
| "migrate_rows name_to_id next_category_id idx (r # rs) =
     (let categoria_nome = (if l_categoria r = [] then ''Outros'' else l_categoria r);
          found = (case name_to_id categoria_nome of
                     None \<Rightarrow> None
                   | Some i \<Rightarrow> if i = [] then None else Some i)
      in case found of
           Some cat_id \<Rightarrow>
             (case migrate_rows name_to_id next_category_id (Suc idx) rs of
                (new_categories, new_rows) \<Rightarrow>
                  (new_categories,
                   [str_int (int idx), l_data r, l_descricao r, l_valor r, cat_id,
                    l_anotacao r] # new_rows))
         | None \<Rightarrow>
             (let cat_id = str_int next_category_id
              in case migrate_rows (name_to_id(categoria_nome \<mapsto> cat_id))
                        (next_category_id + 1) (Suc idx) rs of
                   (new_categories, new_rows) \<Rightarrow>
                     ((cat_id, categoria_nome) # new_categories,
                      [str_int (int idx), l_data r, l_descricao r, l_valor r, cat_id,
                       l_anotacao r] # new_rows)))"

definition append_categories :: "(string \<times> string) list \<Rightarrow> storage \<Rightarrow> storage" where
  "append_categories entries s =
     open_a CATEGORIES_FILE (map (\<lambda>(cat_id, name). [cat_id, name]) entries) s"

definition upgrade_expenses_file :: "storage \<Rightarrow> unit result" where
  "upgrade_expenses_file s =
     (case expenses_file s of
        None \<Rightarrow> Inl (FileNotFoundError, s)
      | Some file \<Rightarrow>
          (case filter nonblank file of
             [] \<Rightarrow> Inr ((), open_w EXPENSES_FILE [expenses_header] s)
           | first # rest \<Rightarrow>
               (let header = map strip first
                in if header \<noteq> [] \<and> hd header = ''id'' then Inr ((), s)
                   else
                     (let categories = load_categories_for_upgrade s;
                          name_to_id = map_of (rev (map (\<lambda>c. (nome c, cid c)) categories))
                      in case int_ids categories of
                           None \<Rightarrow> Inl (ValueError, s)
                         | Some ids \<Rightarrow>
                             (case migrate_rows name_to_id (max_default ids 0 + 1) 1
                                     (old_rows rest) of
                                (new_categories, new_rows) \<Rightarrow>
                                  (let s1 = open_w EXPENSES_FILE (expenses_header # new_rows) s
                                   in if new_categories \<noteq> []
                                      then Inr ((), append_categories new_categories s1)
                                      else Inr ((), s1)))))))"

definition ensure_storage :: "storage \<Rightarrow> unit result" where
  "ensure_storage s =
     (case (if categories_file s = None
            then Inr ((), open_w CATEGORIES_FILE [[''id'', ''nome''], [''1'', ''Outros'']] s)
            else upgrade_categories_file s) of
        Inl e \<Rightarrow> Inl e
      | Inr (u, s1) \<Rightarrow>
          if expenses_file s1 = None
          then Inr ((), open_w EXPENSES_FILE [expenses_header] s1)
          else upgrade_expenses_file s1)"

section \<open>Categories\<close>

text \<open>
  The loop of \<open>load_categories_raw\<close> (lines 168 to 172). \<open>row.get("id", "")\<close> is
  Python's \<open>None\<close> for a row too short for the column, and \<open>None.strip()\<close> raises
  \<open>AttributeError\<close>.
\<close>

fun category_rows :: "pydict list \<Rightarrow> error + category list" where
  "category_rows [] = Inr []"
| "category_rows (d # ds) =
     (case get d ''id'' (Some '''') of
        None \<Rightarrow> Inl AttributeError
      | Some i \<Rightarrow>
          (case get d ''nome'' (Some '''') of
             None \<Rightarrow> Inl AttributeError
           | Some n \<Rightarrow>
               (case category_rows ds of
                  Inl e \<Rightarrow> Inl e
                | Inr cs \<Rightarrow>
                    if strip i \<noteq> [] \<and> strip n \<noteq> []
                    then Inr (\<lparr>cid = strip i, nome = strip n\<rparr> # cs) else Inr cs)))"

definition load_categories_raw :: "storage \<Rightarrow> category list result" where
  "load_categories_raw s =
     (case ensure_storage s of
        Inl e \<Rightarrow> Inl e
      | Inr (u, s1) \<Rightarrow>
          (case categories_file s1 of
             None \<Rightarrow> Inl (FileNotFoundError, s1)
           | Some file \<Rightarrow>
               (case category_rows (DictReader file) of
                  Inl e \<Rightarrow> Inl (e, s1)
                | Inr categories \<Rightarrow> Inr (categories, s1))))"

definition save_categories :: "category list \<Rightarrow> storage \<Rightarrow> unit result" where
  "save_categories categories s =
     (case ensure_storage s of
        Inl e \<Rightarrow> Inl e
      | Inr (u, s1) \<Rightarrow>
          Inr ((), open_w CATEGORIES_FILE
                     ([''id'', ''nome''] # map (\<lambda>c. [cid c, nome c]) categories) s1))"

text \<open>\<open>sorted\<close> is stable, and so is \<^const>\<open>sort_key\<close>.\<close>

definition read_categories :: "storage \<Rightarrow> category list result" where
  "read_categories s =
     (case load_categories_raw s of
        Inl e \<Rightarrow> Inl e
      | Inr (categories, s1) \<Rightarrow> Inr (sort_key (\<lambda>c. lower (nome c)) categories, s1))"

definition add_category :: "string \<Rightarrow> storage \<Rightarrow> unit result" where
  "add_category name s =
     (if strip name = [] then Inr ((), s)
      else
        (case read_categories s of
           Inl e \<Rightarrow> Inl e
         | Inr (categories, s1) \<Rightarrow>
             if lower (strip name) \<in> set (map (\<lambda>c. lower (nome c)) categories) then Inr ((), s1)
             else
               (case int_ids categories of
                  None \<Rightarrow> Inl (ValueError, s1)
                | Some ids \<Rightarrow>
                    Inr ((), open_a CATEGORIES_FILE
                               [[str_int (max_default ids 0 + 1), strip name]] s1))))"

section \<open>Expenses\<close>

text \<open>
  The loop of \<open>load_expenses_raw\<close> (lines 209 to 222): a row with an empty id is skipped
  before its other columns are looked at; \<open>valor\<close> is read with \<open>or ""\<close> and cannot raise.
\<close>

fun expense_rows :: "pydict list \<Rightarrow> error + expense list" where
  "expense_rows [] = Inr []"
| "expense_rows (d # ds) =
     (case get d ''id'' (Some '''') of
        None \<Rightarrow> Inl AttributeError
      | Some i \<Rightarrow>
          if strip i = [] then expense_rows ds
          else
            (case (get d ''data'' (Some ''''), get d ''descricao'' (Some ''''),
                   get d ''categoria_id'' (Some ''''), get d ''anotacao'' (Some '''')) of
               (Some da, Some de, Some ca, Some an) \<Rightarrow>
                 (case expense_rows ds of
                    Inl e \<Rightarrow> Inl e
                  | Inr es \<Rightarrow>
                      Inr (\<lparr>eid = strip i, data = strip da, descricao = strip de,
                            valor = strip (text_of (get d ''valor'' None)),
                            categoria_id = strip ca, anotacao = strip an\<rparr> # es))
             | _ \<Rightarrow> Inl AttributeError))"

definition load_expenses_raw :: "storage \<Rightarrow> expense list result" where
  "load_expenses_raw s =
     (case ensure_storage s of
        Inl e \<Rightarrow> Inl e
      | Inr (u, s1) \<Rightarrow>
          (case expenses_file s1 of
             None \<Rightarrow> Inl (FileNotFoundError, s1)
           | Some file \<Rightarrow>
               (case expense_rows (DictReader file) of
                  Inl e \<Rightarrow> Inl (e, s1)
                | Inr expenses \<Rightarrow> Inr (expenses, s1))))"

definition expense_row :: "expense \<Rightarrow> row" where
  "expense_row e = [eid e, data e, descricao e, valor e, categoria_id e, anotacao e]"

definition save_expenses :: "expense list \<Rightarrow> storage \<Rightarrow> unit result" where
  "save_expenses expenses s =
     (case ensure_storage s of
        Inl e \<Rightarrow> Inl e
      | Inr (u, s1) \<Rightarrow>
          Inr ((), open_w EXPENSES_FILE (expenses_header # map expense_row expenses) s1))"

text \<open>
  The dictionaries \<open>read_expenses\<close> returns: the fields of an expense (\<open>valor\<close> now being
  the text \<open>f"{valor_float:.2f}"\<close>) and three more.
\<close>

record processed = expense +
  valor_float :: pyfloat
  categoria_nome :: string
  categoria :: string

definition process :: "(pyfloat \<Rightarrow> string) \<Rightarrow> (string \<rightharpoonup> string) \<Rightarrow> expense \<Rightarrow> processed" where
  "process fmt2f categories_by_id e =
     (let valor_raw = replace_comma (if valor e = [] then ''0'' else valor e);
          v = (case float_py valor_raw of None \<Rightarrow> Finite False 0 | Some x \<Rightarrow> x);
          name = (case categories_by_id (categoria_id e) of
                    None \<Rightarrow> ''Categoria removida''
                  | Some n \<Rightarrow> if n = [] then ''Categoria removida'' else n)
      in \<lparr>eid = eid e, data = data e, descricao = descricao e, valor = fmt2f v,
          categoria_id = categoria_id e, anotacao = anotacao e,
          valor_float = v, categoria_nome = name, categoria = name\<rparr>)"

text \<open>
  \<open>sorted(processed, key=lambda item: int(item["id"]), reverse=True)\<close>: the keys are
  computed first, one that is not an integer raising \<open>ValueError\<close>; the sort is stable
  also when reversed.
\<close>

definition read_expenses :: "(pyfloat \<Rightarrow> string) \<Rightarrow> storage \<Rightarrow> processed list result" where
  "read_expenses fmt2f s =
     (case load_expenses_raw s of
        Inl e \<Rightarrow> Inl e
      | Inr (expenses_raw, s1) \<Rightarrow>
          (case read_categories s1 of
             Inl e \<Rightarrow> Inl e
           | Inr (categories, s2) \<Rightarrow>
               (let categories_by_id = map_of (rev (map (\<lambda>c. (cid c, nome c)) categories));
                    items = map (process fmt2f categories_by_id) expenses_raw
                in if list_all (\<lambda>p. int_py (eid p) \<noteq> None) items
                   then Inr (sort_key (\<lambda>p. - the (int_py (eid p))) items, s2)
                   else Inl (ValueError, s2))))"

definition get_next_id :: "path \<Rightarrow> string \<Rightarrow> storage \<Rightarrow> string" where
  "get_next_id file_path fld s =
     (case contents file_path s of
        None \<Rightarrow> ''1''
      | Some file \<Rightarrow>
          str_int
            (fold (\<lambda>d max_id.
                     case get d fld (Some ''0'') of
                       None \<Rightarrow> max_id
                     | Some v \<Rightarrow>
                         (case int_py v of
                            None \<Rightarrow> max_id
                          | Some current \<Rightarrow> if current > max_id then current else max_id))
               (DictReader file) 0 + 1))"

definition resolve_category_id :: "string \<Rightarrow> storage \<Rightarrow> string option result" where
  "resolve_category_id identifier s =
     (if strip identifier = [] then Inr (None, s)
      else
        (case read_categories s of
           Inl e \<Rightarrow> Inl e
         | Inr (categories, s1) \<Rightarrow>
             Inr (map_option cid
                    (find (\<lambda>c. strip identifier = cid c
                                \<or> lower (strip identifier) = lower (nome c)) categories),
                  s1)))"

text \<open>\<open>target["nome"] = novo_nome\<close> changes the first category with the id, in the list.\<close>

fun rename_first :: "string \<Rightarrow> string \<Rightarrow> category list \<Rightarrow> category list" where
  "rename_first category_id novo_nome [] = []"
| "rename_first category_id novo_nome (c # cs) =
     (if cid c = category_id then c\<lparr>nome := novo_nome\<rparr> # cs
      else c # rename_first category_id novo_nome cs)"


definition reassign_expenses_category :: "string \<Rightarrow> string \<Rightarrow> storage \<Rightarrow> unit result" where
  "reassign_expenses_category old_id new_id s =
     (case load_expenses_raw s of
        Inl e \<Rightarrow> Inl e
      | Inr (expenses, s1) \<Rightarrow>
          if list_ex (\<lambda>e. categoria_id e = old_id) expenses
          then save_expenses
                 (map (\<lambda>e. if categoria_id e = old_id then e\<lparr>categoria_id := new_id\<rparr> else e)
                    expenses) s1
          else Inr ((), s1))"

definition delete_category :: "string \<Rightarrow> storage \<Rightarrow> bool result" where
  "delete_category category_id s =
     (if category_id = ''1'' then Inr (False, s)
      else
        (case load_categories_raw s of
           Inl e \<Rightarrow> Inl e
         | Inr (categories, s1) \<Rightarrow>
             (let filtered = filter (\<lambda>c. cid c \<noteq> category_id) categories
              in if length filtered = length categories then Inr (False, s1)
                 else
                   (case save_categories filtered s1 of
                      Inl e \<Rightarrow> Inl e
                    | Inr (u, s2) \<Rightarrow>
                        (case reassign_expenses_category category_id ''1'' s2 of
                           Inl e \<Rightarrow> Inl e
                         | Inr (v, s3) \<Rightarrow> Inr (True, s3))))))"

fun update_first :: "string \<Rightarrow> expense \<Rightarrow> expense list \<Rightarrow> expense list" where
  "update_first expense_id new [] = []"
| "update_first expense_id new (e # es) =
     (if eid e = expense_id
      then e\<lparr>data := data new, descricao := descricao new, valor := valor new,
              categoria_id := categoria_id new, anotacao := anotacao new\<rparr> # es
      else e # update_first expense_id new es)"

definition update_expense ::
  "(pyfloat \<Rightarrow> string) \<Rightarrow> string \<Rightarrow> string \<Rightarrow> string \<Rightarrow> pyfloat \<Rightarrow> string \<Rightarrow> string \<Rightarrow> storage \<Rightarrow> bool result"
where
  "update_expense fmt2f expense_id da de v ca an s =
     (case load_expenses_raw s of
        Inl e \<Rightarrow> Inl e
      | Inr (expenses, s1) \<Rightarrow>
          if \<not> list_ex (\<lambda>e. eid e = expense_id) expenses then Inr (False, s1)
          else
            (case save_expenses
                    (update_first expense_id
                       \<lparr>eid = expense_id, data = da, descricao = de, valor = fmt2f v,
                        categoria_id = ca, anotacao = an\<rparr> expenses) s1 of
               Inl e \<Rightarrow> Inl e
             | Inr (u, s2) \<Rightarrow> Inr (True, s2)))"


definition write_expense ::
  "(pyfloat \<Rightarrow> string) \<Rightarrow> string \<Rightarrow> string \<Rightarrow> pyfloat \<Rightarrow> string \<Rightarrow> string \<Rightarrow> storage \<Rightarrow> unit result"
where
  "write_expense fmt2f da de v ca an s =
     (case ensure_storage s of
        Inl e \<Rightarrow> Inl e
      | Inr (u, s1) \<Rightarrow>
          (let expense_id = get_next_id EXPENSES_FILE ''id'' s1
           in Inr ((), open_a EXPENSES_FILE [[expense_id, da, de, fmt2f v, ca, an]] s1)))"

section \<open>Request handlers\<close>

text \<open>
  A handler takes the submitted form and answers with one flashed message, with its
  category, and a redirect to an endpoint. An exception that leaves a handler is an
  \<open>Inl\<close>: no message is flashed then.
\<close>

type_synonym form = "string \<rightharpoonup> string"

record response =
  flashed :: "string \<times> string"
  location :: string

text \<open>\<open>request.form.get(k, "").strip()\<close>.\<close>

definition field :: "form \<Rightarrow> string \<Rightarrow> string" where
  "field f k = strip (case f k of None \<Rightarrow> [] | Some v \<Rightarrow> v)"

text \<open>\<open>(request.form.get("categoria_id") or request.form.get("categoria") or "").strip()\<close>.\<close>

definition categoria_input :: "form \<Rightarrow> string" where
  "categoria_input f =
     strip (if truthy (f ''categoria_id'') then text_of (f ''categoria_id'')
            else if truthy (f ''categoria'') then text_of (f ''categoria'')
            else [])"

definition msg_preencha :: string where
  "msg_preencha = ''Preencha data, descri'' @ [CHR 0xE7, CHR 0xE3] @ ''o, valor e categoria.''"

definition msg_data_invalida :: string where
  "msg_data_invalida = ''Data inv'' @ [CHR 0xE1] @ ''lida. Use o formato AAAA-MM-DD.''"

definition msg_valor_invalido :: string where
  "msg_valor_invalido = ''Valor inv'' @ [CHR 0xE1] @ ''lido.''"

definition msg_categoria_nao_encontrada :: string where
  "msg_categoria_nao_encontrada =
     ''Categoria informada n'' @ [CHR 0xE3] @ ''o foi encontrada.''"

definition msg_registrado :: string where
  "msg_registrado = ''Lan'' @ [CHR 0xE7] @ ''amento registrado com sucesso!''"

definition msg_atualizado :: string where
  "msg_atualizado = ''Lan'' @ [CHR 0xE7] @ ''amento atualizado com sucesso!''"

definition msg_nao_atualizado :: string where
  "msg_nao_atualizado =
     ''N'' @ [CHR 0xE3] @ ''o foi poss'' @ [CHR 0xED] @ ''vel atualizar o lan''
       @ [CHR 0xE7] @ ''amento.''"

definition adicionar :: "(pyfloat \<Rightarrow> string) \<Rightarrow> form \<Rightarrow> storage \<Rightarrow> response result" where
  "adicionar fmt2f f s =
     (if field f ''data'' = [] \<or> field f ''descricao'' = [] \<or> field f ''valor'' = []
         \<or> categoria_input f = []
      then Inr (\<lparr>flashed = (msg_preencha, ''error''), location = ''index''\<rparr>, s)
      else
        (case strptime (field f ''data'') of
           None \<Rightarrow> Inr (\<lparr>flashed = (msg_data_invalida, ''error''), location = ''index''\<rparr>, s)
         | Some data_obj \<Rightarrow>
             (case float_py (replace_comma (field f ''valor'')) of
                None \<Rightarrow>
                  Inr (\<lparr>flashed = (msg_valor_invalido, ''error''), location = ''index''\<rparr>, s)
              | Some v \<Rightarrow>
                  (case resolve_category_id (categoria_input f) s of
                     Inl e \<Rightarrow> Inl e
                   | Inr (resolved, s1) \<Rightarrow>
                       if \<not> truthy resolved
                       then Inr (\<lparr>flashed = (msg_categoria_nao_encontrada, ''error''),
                                  location = ''index''\<rparr>, s1)
                       else
                         (case write_expense fmt2f (strftime data_obj) (field f ''descricao'') v
                                 (text_of resolved) (field f ''anotacao'') s1 of
                            Inl e \<Rightarrow> Inl e
                          | Inr (u, s2) \<Rightarrow>
                              Inr (\<lparr>flashed = (msg_registrado, ''success''),
                                    location = ''index''\<rparr>, s2))))))"

text \<open>The \<open>POST\<close> branch of \<open>categorias\<close>.\<close>

definition categorias :: "form \<Rightarrow> storage \<Rightarrow> response result" where
  "categorias f s =
     (if field f ''nome'' = []
      then Inr (\<lparr>flashed = (''Informe um nome de categoria.'', ''error''),
                 location = ''categorias''\<rparr>, s)
      else
        (case add_category (case f ''nome'' of None \<Rightarrow> [] | Some v \<Rightarrow> v) s of
           Inl e \<Rightarrow> Inl e
         | Inr (u, s1) \<Rightarrow>
             Inr (\<lparr>flashed = (''Categoria criada!'', ''success''),
                   location = ''categorias''\<rparr>, s1)))"

definition editar_lancamento ::
  "(pyfloat \<Rightarrow> string) \<Rightarrow> string \<Rightarrow> form \<Rightarrow> storage \<Rightarrow> response result"
where
  "editar_lancamento fmt2f expense_id f s =
     (if field f ''data'' = [] \<or> field f ''descricao'' = [] \<or> field f ''valor'' = []
         \<or> categoria_input f = []
      then Inr (\<lparr>flashed = (msg_preencha, ''error''), location = ''index''\<rparr>, s)
      else
        (case strptime (field f ''data'') of
           None \<Rightarrow> Inr (\<lparr>flashed = (msg_data_invalida, ''error''), location = ''index''\<rparr>, s)
         | Some data_obj \<Rightarrow>
             (case float_py (replace_comma (field f ''valor'')) of
                None \<Rightarrow>
                  Inr (\<lparr>flashed = (msg_valor_invalido, ''error''), location = ''index''\<rparr>, s)
              | Some v \<Rightarrow>
                  (case resolve_category_id (categoria_input f) s of
                     Inl e \<Rightarrow> Inl e
                   | Inr (resolved, s1) \<Rightarrow>
                       if \<not> truthy resolved
                       then Inr (\<lparr>flashed = (msg_categoria_nao_encontrada, ''error''),
                                  location = ''index''\<rparr>, s1)
                       else
                         (case update_expense fmt2f expense_id (strftime data_obj)
                                 (field f ''descricao'') v (text_of resolved)
                                 (field f ''anotacao'') s1 of
                            Inl e \<Rightarrow> Inl e
                          | Inr (ok, s2) \<Rightarrow>
                              if ok
                              then Inr (\<lparr>flashed = (msg_atualizado, ''success''),
                                         location = ''index''\<rparr>, s2)
                              else Inr (\<lparr>flashed = (msg_nao_atualizado, ''error''),
                                         location = ''index''\<rparr>, s2))))))"

section \<open>Storage that needs no creation or migration\<close>

text \<open>
  A file is current when both upgrade functions return from it at once: it has a row
  that is not blank, and the first cell of the first such row is \<open>id\<close> after stripping.
  The storage is ready when \<open>ensure_storage\<close> leaves it as it is.
\<close>

definition current :: "csv_file \<Rightarrow> bool" where
  "current file =
     (case filter nonblank file of
        [] \<Rightarrow> False
      | first # rest \<Rightarrow> map strip first \<noteq> [] \<and> hd (map strip first) = ''id'')"

definition ready :: "storage \<Rightarrow> bool" where
  "ready s \<longleftrightarrow> ensure_storage s = Inr ((), s)"

definition both_current :: "storage \<Rightarrow> bool" where
  "both_current s \<longleftrightarrow>
     (case categories_file s of None \<Rightarrow> False | Some file \<Rightarrow> current file) \<and>
     (case expenses_file s of None \<Rightarrow> False | Some file \<Rightarrow> current file)"

text \<open>
  What the two loaders return: every field stripped, the id not empty, and for a
  category the name not empty.
\<close>

definition clean_category :: "category \<Rightarrow> bool" where
  "clean_category c \<longleftrightarrow>
     cid c \<noteq> [] \<and> nome c \<noteq> [] \<and> strip (cid c) = cid c \<and> strip (nome c) = nome c"

definition clean_expense :: "expense \<Rightarrow> bool" where
  "clean_expense e \<longleftrightarrow>
     eid e \<noteq> [] \<and> strip (eid e) = eid e \<and> strip (data e) = data e
     \<and> strip (descricao e) = descricao e \<and> strip (valor e) = valor e
     \<and> strip (categoria_id e) = categoria_id e \<and> strip (anotacao e) = anotacao e"

section \<open>Example storages\<close>

definition example_store :: storage where
  "example_store =
     \<lparr>categories_file = Some [[''id'', ''nome''], [''1'', ''Outros''], [''2'', ''Casa'']],
      expenses_file =
        Some [[''id'', ''data'', ''descricao'', ''valor'', ''categoria_id'', ''anotacao''],
              [''1'', ''2024-01-01'', ''mercado'', ''1.50'', ''2'', ''''],
              [''2'', ''2024-01-02'', ''luz'', ''2.00'', ''1'', ''n''],
              [''3'', ''2024-01-03'', ''cinema'', ''9.00'', ''7'', '''']],
      journal = []\<rparr>"

definition two_decimals :: "pyfloat \<Rightarrow> string" where
  "two_decimals v = ''0.00''"

definition legacy_store :: storage where
  "legacy_store =
     \<lparr>categories_file = Some [[''nome''], [''Comida''], [''Outros'']],
      expenses_file = None, journal = []\<rparr>"

section \<open>Well-formed storage and sequences of operations\<close>

text \<open>
  The storage the program itself leaves: both files exist with the header rows it writes,
  and both load without an exception. What is loaded is the stored categories and the
  stored expenses.
\<close>

definition canonical :: "storage \<Rightarrow> bool" where
  "canonical s \<longleftrightarrow>
     (case categories_file s of Some (h # rows) \<Rightarrow> h = [''id'', ''nome''] | _ \<Rightarrow> False) \<and>
     (case expenses_file s of Some (h # rows) \<Rightarrow> h = expenses_header | _ \<Rightarrow> False)"




text \<open>
  \<open>get_next_id\<close> gives each id cell of the expenses file to \<open>int\<close> as it stands in the
  file, while \<open>load_expenses_raw\<close> strips it first. In the files the program writes the
  two agree: \<open>int\<close> reads each id cell as it reads the stripped cell. They differ on a
  cell that begins or ends with one of U+001C to U+001F.
\<close>

definition ids_as_written :: "storage \<Rightarrow> bool" where
  "ids_as_written s \<longleftrightarrow>
     (case expenses_file s of
        None \<Rightarrow> True
      | Some file \<Rightarrow>
          list_all (\<lambda>d. case get d ''id'' (Some ''0'') of
                           None \<Rightarrow> True
                         | Some v \<Rightarrow> int_py (strip v) = int_py v)
            (DictReader file))"

text \<open>Ids that are integers, no two of them the same integer.\<close>

definition ids_ok :: "string list \<Rightarrow> bool" where
  "ids_ok ids \<longleftrightarrow> list_all (\<lambda>i. int_py i \<noteq> None) ids \<and> distinct (map int_py ids)"




definition outcome :: "'a result \<Rightarrow> storage" where
  "outcome r = (case r of Inl (e, s) \<Rightarrow> s | Inr (x, s) \<Rightarrow> s)"



text \<open>An expense as it is loaded back after having been written: every field stripped.\<close>

definition stripped :: "expense \<Rightarrow> expense" where
  "stripped e =
     \<lparr>eid = strip (eid e), data = strip (data e), descricao = strip (descricao e),
      valor = strip (valor e), categoria_id = strip (categoria_id e),
      anotacao = strip (anotacao e)\<rparr>"

text \<open>
  How one operation can change the stored categories (nothing, one appended under a new
  id and a new name, the first of an id renamed to a name no category of another id has,
  those of an id removed) and the ids of the stored expenses (nothing, one appended,
  those equal to an id removed).
\<close>

definition category_change :: "category list \<Rightarrow> category list \<Rightarrow> bool" where
  "category_change cs cs' \<longleftrightarrow>
     cs' = cs
     \<or> (\<exists>n nm. cs' = cs @ [\<lparr>cid = str_int n, nome = nm\<rparr>]
          \<and> lower nm \<notin> (\<lambda>c. lower (nome c)) ` set cs
          \<and> (\<forall>c\<in>set cs. \<exists>i. int_py (cid c) = Some i \<and> i < n))
     \<or> (\<exists>x nn. cs' = rename_first x nn cs
          \<and> (\<forall>c\<in>set cs. cid c \<noteq> x \<longrightarrow> lower nn \<noteq> lower (nome c)))
     \<or> (\<exists>x. cs' = filter (\<lambda>c. cid c \<noteq> x) cs)"

definition expense_change :: "expense list \<Rightarrow> expense list \<Rightarrow> bool" where
  "expense_change es es' \<longleftrightarrow>
     map eid es' = map eid es
     \<or> (\<exists>n. map eid es' = map eid es @ [str_int n]
          \<and> (\<forall>e\<in>set es. \<forall>i. int_py (eid e) = Some i \<longrightarrow> i < n))
     \<or> (\<exists>x. map eid es' = filter (\<lambda>i. i \<noteq> x) (map eid es))"


section \<open>Facts about strings and integers\<close>

lemma dropWhile_none: "(\<forall>c\<in>set s. \<not> P c) \<Longrightarrow> dropWhile P s = s"
  by (cases s) auto

lemma strip_no_space: "(\<forall>c\<in>set s. \<not> isspace c) \<Longrightarrow> strip s = s"
  by (simp add: strip_def dropWhile_none)

lemma rdrop_Cons: "\<not> P x \<Longrightarrow> rev (dropWhile P (rev (x # xs))) = x # rev (dropWhile P (rev xs))"
  by (simp add: dropWhile_append3)

lemma dropWhile_fix: "xs = [] \<or> \<not> P (hd xs) \<Longrightarrow> dropWhile P xs = xs"
  by (cases xs) auto

lemma dropWhile_head: "dropWhile P xs = [] \<or> \<not> P (hd (dropWhile P xs))"
  by (metis hd_dropWhile)

lemma strip_idem [simp]: "strip (strip s) = strip s"
proof -
  define t where "t = dropWhile isspace s"
  define u where "u = rev (dropWhile isspace (rev t))"
  have t: "t = [] \<or> \<not> isspace (hd t)" unfolding t_def by (rule dropWhile_head)
  have u1: "dropWhile isspace u = u"
  proof (cases t)
    case Nil then show ?thesis by (simp add: u_def)
  next
    case (Cons x xs)
    with t have "\<not> isspace x" by simp
    then have "u = x # rev (dropWhile isspace (rev xs))" unfolding u_def Cons by (rule rdrop_Cons)
    with \<open>\<not> isspace x\<close> show ?thesis by simp
  qed
  have "dropWhile isspace (rev u) = rev u"
    by (simp add: u_def)
  with u1 have "strip u = u" by (simp add: strip_def)
  then show ?thesis by (simp add: strip_def u_def t_def)
qed

lemma digit_char_props: "n < 10 \<Longrightarrow> is_digit (digit_char n) \<and> digit_val (digit_char n) = n \<and> \<not> isspace (digit_char n) \<and> digit_char n \<noteq> CHR ''-'' \<and> digit_char n \<noteq> CHR ''+''"
proof -
  assume "n < 10"
  then have "n \<in> {0,1,2,3,4,5,6,7,8,9}" by auto
  then show ?thesis
    by (auto simp: digit_char_def is_digit_def digit_val_def isspace_def)
qed

lemma digits_from_snoc:
  "digits_from acc xs = Some v \<Longrightarrow> is_digit c \<Longrightarrow> digits_from acc (xs @ [c]) = Some (v * 10 + digit_val c)"
  by (induction acc xs rule: digits_from.induct) (auto split: if_splits list.splits)

lemma digitpart_snoc:
  "digitpart xs = Some v \<Longrightarrow> is_digit c \<Longrightarrow> digitpart (xs @ [c]) = Some (v * 10 + digit_val c)"
  by (cases xs) (auto simp: digitpart_def digits_from_snoc split: if_splits)

lemma digitpart_str_nat: "digitpart (str_nat n) = Some n"
proof (induction n rule: str_nat.induct)
  case (1 n)
  show ?case
  proof (cases "n < 10")
    case True
    then show ?thesis using digit_char_props[of n] by (simp add: str_nat.simps[of n] digitpart_def)
  next
    case False
    then have "digitpart (str_nat (n div 10)) = Some (n div 10)" using 1 by simp
    then have "digitpart (str_nat (n div 10) @ [digit_char (n mod 10)]) = Some (n div 10 * 10 + n mod 10)"
      using digitpart_snoc digit_char_props[of "n mod 10"] by simp
    with False show ?thesis by (simp add: str_nat.simps[of n])
  qed
qed

lemma str_nat_chars: "c \<in> set (str_nat n) \<Longrightarrow> is_digit c \<and> \<not> isspace c"
proof (induction n rule: str_nat.induct)
  case (1 n)
  show ?case
  proof (cases "n < 10")
    case True
    with 1(2) show ?thesis using digit_char_props[of n] by (simp add: str_nat.simps[of n])
  next
    case False
    with 1 show ?thesis using digit_char_props[of "n mod 10"] by (auto simp add: str_nat.simps[of n])
  qed
qed

lemma str_nat_nonempty: "str_nat n \<noteq> []"
  by (subst str_nat.simps) simp

lemma str_nat_hd: "\<exists>c cs. str_nat n = c # cs \<and> is_digit c"
  using str_nat_nonempty[of n] str_nat_chars[of _ n] by (cases "str_nat n") auto

lemma is_digit_not_sign: "is_digit c \<Longrightarrow> c \<noteq> CHR ''-'' \<and> c \<noteq> CHR ''+''"
  by (auto simp: is_digit_def)

lemma minus_not_space: "\<not> isspace CHR ''-''"
  by (simp add: isspace_def)

lemma str_int_nospace: "c \<in> set (str_int i) \<Longrightarrow> \<not> isspace c"
  using str_nat_chars minus_not_space by (auto simp: str_int_def split: if_splits)

lemma strip_str_int [simp]: "strip (str_int i) = str_int i"
  by (rule strip_no_space) (auto dest: str_int_nospace)

lemma str_int_nonempty [simp]: "str_int i \<noteq> []"
  by (simp add: str_int_def str_nat_nonempty)

lemma isspace_literal_isspace: "isspace_literal c \<Longrightarrow> isspace c"
  by (auto simp: isspace_literal_def isspace_def)

lemma strip_literal_no_space: "(\<forall>c\<in>set s. \<not> isspace c) \<Longrightarrow> strip_literal s = s"
proof -
  assume "\<forall>c\<in>set s. \<not> isspace c"
  then have "\<forall>c\<in>set s. \<not> isspace_literal c" using isspace_literal_isspace by blast
  then show ?thesis by (simp add: strip_literal_def dropWhile_none)
qed

lemma strip_literal_str_int [simp]: "strip_literal (str_int i) = str_int i"
  by (rule strip_literal_no_space) (auto dest: str_int_nospace)

lemma int_py_str_int [simp]: "int_py (str_int i) = Some i"
proof (cases "i < 0")
  case True
  then show ?thesis
    using strip_literal_str_int[of i]
    by (simp add: int_py_def str_int_def digitpart_str_nat del: strip_literal_str_int)
next
  case False
  obtain c cs where cs: "str_nat (nat i) = c # cs" "is_digit c" using str_nat_hd by blast
  have "strip_literal (str_nat (nat i)) = str_nat (nat i)"
    using strip_literal_str_int[of i] False by (simp add: str_int_def)
  moreover have "digitpart (c # cs) = Some (nat i)" using digitpart_str_nat[of "nat i"] cs by simp
  ultimately show ?thesis using False cs is_digit_not_sign[of c]
    by (simp add: int_py_def str_int_def)
qed

lemma str_int_inj: "str_int i = str_int j \<Longrightarrow> i = j"
  by (metis int_py_str_int option.inject)

section \<open>Creation and migration happen once\<close>

lemma strip_id_lit [simp]: "strip ''id'' = ''id''"
  by (simp add: strip_def isspace_def)

lemma nonblank_categories_header [simp]: "nonblank (''id'' # r)"
  by (simp add: nonblank_def)

lemma current_id_header [simp]: "current ((''id'' # r) # rows)"
  by (simp add: current_def)

lemma current_expenses_header [simp]: "current (expenses_header # rows)"
  by (simp add: expenses_header_def)

lemma current_append: "current f \<Longrightarrow> current (f @ rows)"
  by (auto simp: current_def split: list.splits)

lemma upgrade_categories_current:
  "categories_file s = Some f \<Longrightarrow> current f \<Longrightarrow> upgrade_categories_file s = Inr ((), s)"
  by (auto simp: upgrade_categories_file_def current_def split: list.splits)

lemma upgrade_expenses_current:
  "expenses_file s = Some f \<Longrightarrow> current f \<Longrightarrow> upgrade_expenses_file s = Inr ((), s)"
  by (auto simp: upgrade_expenses_file_def current_def split: list.splits)

lemma both_current_ready: "both_current s \<Longrightarrow> ready s"
  by (auto simp: both_current_def ready_def ensure_storage_def upgrade_categories_current
      upgrade_expenses_current split: option.splits)

lemma upgrade_categories_cases:
  assumes "upgrade_categories_file s = Inr (u, s1)"
  shows "(\<exists>f. categories_file s = Some f \<and> current f \<and> s1 = s)
         \<or> (\<exists>rows. s1 = open_w CATEGORIES_FILE ([''id'', ''nome''] # rows) s)"
proof -
  obtain f where f: "categories_file s = Some f"
    using assms by (auto simp: upgrade_categories_file_def split: option.splits)
  show ?thesis
  proof (cases "filter nonblank f")
    case Nil
    with assms f show ?thesis by (auto simp: upgrade_categories_file_def)
  next
    case (Cons first rest)
    show ?thesis
    proof (cases "map strip first \<noteq> [] \<and> hd (map strip first) = ''id''")
      case True
      with assms f Cons show ?thesis
        by (auto simp: upgrade_categories_file_def current_def)
    next
      case False
      with assms f Cons show ?thesis
        by (auto simp: upgrade_categories_file_def Let_def split: prod.splits if_splits)
    qed
  qed
qed

lemma upgrade_categories_post:
  assumes "upgrade_categories_file s = Inr (u, s1)"
  shows "(\<exists>f. categories_file s1 = Some f \<and> current f) \<and> expenses_file s1 = expenses_file s"
  using upgrade_categories_cases[OF assms] by (auto simp: open_w_def)

lemma upgrade_expenses_cases:
  assumes "upgrade_expenses_file s = Inr (u, s1)"
  shows "(\<exists>f. expenses_file s = Some f \<and> current f \<and> s1 = s)
         \<or> (\<exists>rows. s1 = open_w EXPENSES_FILE (expenses_header # rows) s)
         \<or> (\<exists>rows cats. s1 = append_categories cats (open_w EXPENSES_FILE (expenses_header # rows) s))"
proof -
  obtain f where f: "expenses_file s = Some f"
    using assms by (auto simp: upgrade_expenses_file_def split: option.splits)
  show ?thesis
  proof (cases "filter nonblank f")
    case Nil
    with assms f show ?thesis by (auto simp: upgrade_expenses_file_def)
  next
    case (Cons first rest)
    show ?thesis
    proof (cases "map strip first \<noteq> [] \<and> hd (map strip first) = ''id''")
      case True
      with assms f Cons show ?thesis
        by (auto simp: upgrade_expenses_file_def current_def)
    next
      case False
      with assms f Cons show ?thesis
        by (auto simp: upgrade_expenses_file_def Let_def split: prod.splits if_splits option.splits)
    qed
  qed
qed

lemma upgrade_expenses_post:
  assumes "upgrade_expenses_file s = Inr (u, s1)" and "categories_file s = Some f" and "current f"
  shows "both_current s1"
  using upgrade_expenses_cases[OF assms(1)] assms(2,3)
  by (auto simp: open_w_def open_a_def append_categories_def contents_def both_current_def
      current_append)

lemma ensure_storage_post:
  assumes "ensure_storage s = Inr (u, s1)"
  shows "both_current s1"
proof -
  obtain s0 where s0: "(if categories_file s = None
            then Inr ((), open_w CATEGORIES_FILE [[''id'', ''nome''], [''1'', ''Outros'']] s)
            else upgrade_categories_file s) = Inr ((), s0)"
    using assms by (auto simp: ensure_storage_def split: sum.splits)
  have c0: "\<exists>f. categories_file s0 = Some f \<and> current f"
  proof (cases "categories_file s = None")
    case True
    with s0 show ?thesis by (auto simp: open_w_def)
  next
    case False
    with s0 show ?thesis using upgrade_categories_post[of s "()" s0] by simp
  qed
  have e: "(if expenses_file s0 = None
          then Inr ((), open_w EXPENSES_FILE [expenses_header] s0)
          else upgrade_expenses_file s0) = Inr (u, s1)"
    using assms s0 by (simp add: ensure_storage_def)
  show ?thesis
  proof (cases "expenses_file s0 = None")
    case True
    with e c0 show ?thesis by (auto simp: open_w_def both_current_def)
  next
    case False
    with e c0 show ?thesis using upgrade_expenses_post[of s0 u s1] by auto
  qed
qed

lemma ensure_storage_ready: "ensure_storage s = Inr (u, s1) \<Longrightarrow> ready s1"
  by (rule both_current_ready, rule ensure_storage_post)

lemma ready_both_current: "ready s \<Longrightarrow> both_current s"
  unfolding ready_def by (rule ensure_storage_post)

lemma ensure_storage_idem: "ensure_storage s = Inr (u, s1) \<Longrightarrow> ensure_storage s1 = Inr ((), s1)"
  using ensure_storage_ready ready_def by blast

lemma load_categories_raw_after:
  "ensure_storage s = Inr (u, s1) \<Longrightarrow> load_categories_raw s1 = load_categories_raw s"
  by (simp add: load_categories_raw_def ensure_storage_idem)

lemma load_expenses_raw_after:
  "ensure_storage s = Inr (u, s1) \<Longrightarrow> load_expenses_raw s1 = load_expenses_raw s"
  by (simp add: load_expenses_raw_def ensure_storage_idem)

lemma load_categories_raw_ensure:
  "load_categories_raw s = Inr (cs, s1) \<Longrightarrow> ensure_storage s = Inr ((), s1)"
  by (auto simp: load_categories_raw_def split: sum.splits option.splits)

lemma load_expenses_raw_ensure:
  "load_expenses_raw s = Inr (es, s1) \<Longrightarrow> ensure_storage s = Inr ((), s1)"
  by (auto simp: load_expenses_raw_def split: sum.splits option.splits)

lemma read_categories_ensure:
  "read_categories s = Inr (cs, s1) \<Longrightarrow> ensure_storage s = Inr ((), s1)"
  by (auto simp: read_categories_def dest: load_categories_raw_ensure split: sum.splits)

section \<open>What is loaded, and what is loaded back after a save\<close>

lemma category_rows_clean:
  "category_rows ds = Inr cs \<Longrightarrow> c \<in> set cs \<Longrightarrow> clean_category c"
  by (induction ds arbitrary: cs)
     (auto simp: clean_category_def split: option.splits sum.splits if_splits)

lemma expense_rows_clean:
  "expense_rows ds = Inr es \<Longrightarrow> e \<in> set es \<Longrightarrow> clean_expense e"
  by (induction ds arbitrary: es)
     (auto simp: clean_expense_def split: option.splits sum.splits if_splits)

lemma get_categories_row [simp]:
  "get (dict_of_row [''id'', ''nome''] [a, b]) ''id'' d = Some a"
  "get (dict_of_row [''id'', ''nome''] [a, b]) ''nome'' d = Some b"
  by (simp_all add: get_def dict_of_row_def)



lemma get_expenses_row [simp]:
  "get (dict_of_row expenses_header [a, b, c, d, e, f]) ''id'' x = Some a"
  "get (dict_of_row expenses_header [a, b, c, d, e, f]) ''data'' x = Some b"
  "get (dict_of_row expenses_header [a, b, c, d, e, f]) ''descricao'' x = Some c"
  "get (dict_of_row expenses_header [a, b, c, d, e, f]) ''valor'' x = Some d"
  "get (dict_of_row expenses_header [a, b, c, d, e, f]) ''categoria_id'' x = Some e"
  "get (dict_of_row expenses_header [a, b, c, d, e, f]) ''anotacao'' x = Some f"
  by (simp_all add: get_def dict_of_row_def expenses_header_def)





lemma ready_open_a: "ready s \<Longrightarrow> ready (open_a p rows s)"
  by (rule both_current_ready, drule ready_both_current)
     (auto simp: both_current_def open_a_def contents_def current_append
           split: path.splits option.splits)

lemma ready_files:
  "ready s \<Longrightarrow> \<exists>cf ef. categories_file s = Some cf \<and> expenses_file s = Some ef"
  by (drule ready_both_current) (auto simp: both_current_def split: option.splits)



lemma load_categories_raw_result:
  assumes "load_categories_raw s = Inr (cs, s1)"
  shows "ready s1" and "load_categories_raw s1 = Inr (cs, s1)"
    and "\<forall>c\<in>set cs. clean_category c"
    and "\<exists>file. categories_file s1 = Some file \<and> category_rows (DictReader file) = Inr cs"
proof -
  have e: "ensure_storage s = Inr ((), s1)" using assms by (rule load_categories_raw_ensure)
  then show "ready s1" by (rule ensure_storage_ready)
  show "load_categories_raw s1 = Inr (cs, s1)" using load_categories_raw_after[OF e] assms by simp
  show f: "\<exists>file. categories_file s1 = Some file \<and> category_rows (DictReader file) = Inr cs"
    using assms e by (auto simp: load_categories_raw_def split: option.splits sum.splits)
  then show "\<forall>c\<in>set cs. clean_category c" using category_rows_clean by blast
qed

lemma load_expenses_raw_result:
  assumes "load_expenses_raw s = Inr (es, s1)"
  shows "ready s1" and "load_expenses_raw s1 = Inr (es, s1)"
    and "\<forall>e\<in>set es. clean_expense e"
    and "\<exists>file. expenses_file s1 = Some file \<and> expense_rows (DictReader file) = Inr es"
proof -
  have e: "ensure_storage s = Inr ((), s1)" using assms by (rule load_expenses_raw_ensure)
  then show "ready s1" by (rule ensure_storage_ready)
  show "load_expenses_raw s1 = Inr (es, s1)" using load_expenses_raw_after[OF e] assms by simp
  show f: "\<exists>file. expenses_file s1 = Some file \<and> expense_rows (DictReader file) = Inr es"
    using assms e by (auto simp: load_expenses_raw_def split: option.splits sum.splits)
  then show "\<forall>e\<in>set es. clean_expense e" using expense_rows_clean by blast
qed







lemma lower_Nil [simp]: "lower s = [] \<longleftrightarrow> s = []"
  by (simp add: lower_def)

lemma read_categories_result:
  "load_categories_raw s = Inr (cs, s1) \<Longrightarrow>
   read_categories s = Inr (sort_key (\<lambda>c. lower (nome c)) cs, s1)"
  by (simp add: read_categories_def)

section \<open>The default category\<close>

text \<open>
  C8. The default category, id \<open>"1"\<close>, is never deletable: in every storage
  \<open>delete_category("1")\<close> returns \<open>False\<close> and leaves the storage as it was, both files
  and the journal (nothing was read, created or written).
\<close>

theorem default_category_not_deletable:
  "delete_category ''1'' s = Inr (False, s)"
  by (simp add: delete_category_def)

theorem default_category_not_deletable_witness:
  "delete_category ''1''
     \<lparr>categories_file = Some [[''id'', ''nome''], [''1'', ''Outros'']],
      expenses_file = Some [[''id'', ''data'', ''descricao'', ''valor'', ''categoria_id'',
                             ''anotacao''],
                            [''1'', ''2024-01-01'', ''x'', ''1.50'', ''1'', '''']],
      journal = []\<rparr>
   = Inr (False,
     \<lparr>categories_file = Some [[''id'', ''nome''], [''1'', ''Outros'']],
      expenses_file = Some [[''id'', ''data'', ''descricao'', ''valor'', ''categoria_id'',
                             ''anotacao''],
                            [''1'', ''2024-01-01'', ''x'', ''1.50'', ''1'', '''']],
      journal = []\<rparr>)"
  by (rule default_category_not_deletable)

section \<open>A name that collides\<close>

lemma add_category_collision:
  assumes "load_categories_raw s = Inr (cs, s1)" and "c \<in> set cs"
    and "lower (strip name) = lower (nome c)"
  shows "add_category name s = Inr ((), s1)"
proof -
  have "clean_category c" using load_categories_raw_result(3)[OF assms(1)] assms(2) by blast
  then have "lower (nome c) \<noteq> []" by (simp add: clean_category_def)
  then have ne: "strip name \<noteq> []" using assms(3) by (metis lower_Nil)
  have "lower (strip name) \<in> set (map (\<lambda>c. lower (nome c)) (sort_key (\<lambda>c. lower (nome c)) cs))"
    using assms(2,3) by auto
  then show ?thesis
    using ne by (simp add: add_category_def read_categories_result[OF assms(1)])
qed

text \<open>
  C10. Posting to \<open>/categorias\<close> a name that equals, up to case, the name of a stored
  category: \<open>add_category\<close> returns without writing (the storage is the one that loading
  the categories leaves, which is the given one when it was ready), the stored categories
  are the same, and the route still flashes \<open>"Categoria criada!"\<close> as a success.
\<close>

theorem categorias_collision_flashes_success:
  assumes "load_categories_raw s = Inr (cs, s1)" and "c \<in> set cs"
    and "f ''nome'' = Some name" and "lower (strip name) = lower (nome c)"
  shows "add_category name s = Inr ((), s1)
       \<and> categorias f s = Inr (\<lparr>flashed = (''Categoria criada!'', ''success''),
                                 location = ''categorias''\<rparr>, s1)
       \<and> ensure_storage s = Inr ((), s1)
       \<and> load_categories_raw s1 = Inr (cs, s1)
       \<and> (ready s \<longrightarrow> s1 = s)"
proof -
  have a: "add_category name s = Inr ((), s1)"
    using assms(1,2,4) by (rule add_category_collision)
  have "clean_category c" using load_categories_raw_result(3)[OF assms(1)] assms(2) by blast
  then have "lower (nome c) \<noteq> []" by (simp add: clean_category_def)
  then have ne: "field f ''nome'' \<noteq> []" using assms(3,4) by (simp add: field_def) (metis lower_Nil)
  have e: "ensure_storage s = Inr ((), s1)" using assms(1) by (rule load_categories_raw_ensure)
  have r: "ready s \<longrightarrow> s1 = s" using e by (simp add: ready_def)
  show ?thesis
    using a ne e r load_categories_raw_result(2)[OF assms(1)] assms(3)
    by (simp add: categorias_def)
qed

lemma example_store_categories:
  "load_categories_raw example_store
   = Inr ([\<lparr>cid = ''1'', nome = ''Outros''\<rparr>, \<lparr>cid = ''2'', nome = ''Casa''\<rparr>], example_store)"
  by code_simp

lemma example_store_expenses:
  "load_expenses_raw example_store
   = Inr ([\<lparr>eid = ''1'', data = ''2024-01-01'', descricao = ''mercado'', valor = ''1.50'',
            categoria_id = ''2'', anotacao = ''''\<rparr>,
           \<lparr>eid = ''2'', data = ''2024-01-02'', descricao = ''luz'', valor = ''2.00'',
            categoria_id = ''1'', anotacao = ''n''\<rparr>,
           \<lparr>eid = ''3'', data = ''2024-01-03'', descricao = ''cinema'', valor = ''9.00'',
            categoria_id = ''7'', anotacao = ''''\<rparr>], example_store)"
  by code_simp

theorem categorias_collision_flashes_success_witness:
  "categorias [''nome'' \<mapsto> '' OUTROS ''] example_store
     = Inr (\<lparr>flashed = (''Categoria criada!'', ''success''), location = ''categorias''\<rparr>,
            example_store)
   \<and> add_category '' OUTROS '' example_store = Inr ((), example_store)"
proof -
  have l: "lower (strip '' OUTROS '') = lower (nome \<lparr>cid = ''1'', nome = ''Outros''\<rparr>)"
    by code_simp
  show ?thesis
    using categorias_collision_flashes_success[OF example_store_categories _ _ l,
        of "[''nome'' \<mapsto> '' OUTROS '']"]
    by simp
qed

section \<open>Requests that fail validation\<close>

lemma strip_categoria_input [simp]: "strip (categoria_input f) = categoria_input f"
  by (simp add: categoria_input_def)

lemma resolve_category_id_state:
  "resolve_category_id i s = Inr (r, s1) \<Longrightarrow> s1 = s \<or> ensure_storage s = Inr ((), s1)"
  by (auto simp: resolve_category_id_def dest: read_categories_ensure split: if_splits sum.splits)

lemma resolve_category_id_unknown:
  assumes "load_categories_raw s = Inr (cs, s1)"
    and "\<forall>c\<in>set cs. strip i \<noteq> cid c \<and> lower (strip i) \<noteq> lower (nome c)"
  shows "resolve_category_id i s = Inr (None, if strip i = [] then s else s1)"
proof -
  have "find (\<lambda>c. strip i = cid c \<or> lower (strip i) = lower (nome c))
          (sort_key (\<lambda>c. lower (nome c)) cs) = None"
    using assms(2) by (simp add: find_None_iff)
  then show ?thesis
    by (simp add: resolve_category_id_def read_categories_result[OF assms(1)])
qed

lemma invalid_request:
  assumes "field f ''data'' = [] \<or> field f ''descricao'' = [] \<or> field f ''valor'' = []
           \<or> categoria_input f = [] \<or> strptime (field f ''data'') = None
           \<or> float_py (replace_comma (field f ''valor'')) = None
           \<or> resolve_category_id (categoria_input f) s = Inr (None, s1)"
  shows "\<exists>msg s'. adicionar fmt2f f s
                    = Inr (\<lparr>flashed = (msg, ''error''), location = ''index''\<rparr>, s')
              \<and> editar_lancamento fmt2f expense_id f s
                    = Inr (\<lparr>flashed = (msg, ''error''), location = ''index''\<rparr>, s')
              \<and> (s' = s \<or> ensure_storage s = Inr ((), s'))"
proof (cases "field f ''data'' = [] \<or> field f ''descricao'' = [] \<or> field f ''valor'' = []
              \<or> categoria_input f = []")
  case True
  then show ?thesis by (simp add: adicionar_def editar_lancamento_def)
next
  case filled: False
  show ?thesis
  proof (cases "strptime (field f ''data'')")
    case None
    with filled show ?thesis by (simp add: adicionar_def editar_lancamento_def)
  next
    case (Some d)
    show ?thesis
    proof (cases "float_py (replace_comma (field f ''valor''))")
      case None
      with filled Some show ?thesis by (simp add: adicionar_def editar_lancamento_def)
    next
      case amount: (Some v)
      with filled Some assms
      have r: "resolve_category_id (categoria_input f) s = Inr (None, s1)" by simp
      have "s1 = s \<or> ensure_storage s = Inr ((), s1)" using r by (rule resolve_category_id_state)
      with filled Some amount r show ?thesis
        by (simp add: adicionar_def editar_lancamento_def truthy_def)
    qed
  qed
qed

text \<open>
  C4. An expense creation or edit in which a required field is missing, the date is
  malformed, the amount is not numeric, or the category cannot be resolved: both handlers
  answer with an error message and a redirect to the index, and nothing is written. The
  storage left is the given one or, when the categories had to be read, the one that the
  creation and migration of first access leave; what is loaded as stored categories and
  stored expenses is the same before and after.
\<close>

theorem validation_failure_leaves_storage:
  assumes "field f ''data'' = [] \<or> field f ''descricao'' = [] \<or> field f ''valor'' = []
           \<or> categoria_input f = [] \<or> strptime (field f ''data'') = None
           \<or> float_py (replace_comma (field f ''valor'')) = None
           \<or> resolve_category_id (categoria_input f) s = Inr (None, s1)"
  shows "\<exists>msg s'. adicionar fmt2f f s
                    = Inr (\<lparr>flashed = (msg, ''error''), location = ''index''\<rparr>, s')
              \<and> editar_lancamento fmt2f expense_id f s
                    = Inr (\<lparr>flashed = (msg, ''error''), location = ''index''\<rparr>, s')
              \<and> (s' = s \<or> ensure_storage s = Inr ((), s'))
              \<and> (ready s \<longrightarrow> s' = s)
              \<and> load_categories_raw s' = load_categories_raw s
              \<and> load_expenses_raw s' = load_expenses_raw s"
proof -
  obtain msg s' where h:
    "adicionar fmt2f f s = Inr (\<lparr>flashed = (msg, ''error''), location = ''index''\<rparr>, s')"
    "editar_lancamento fmt2f expense_id f s
       = Inr (\<lparr>flashed = (msg, ''error''), location = ''index''\<rparr>, s')"
    "s' = s \<or> ensure_storage s = Inr ((), s')"
    using invalid_request[OF assms] by blast
  have "ready s \<longrightarrow> s' = s" using h(3) by (auto simp: ready_def)
  moreover have "load_categories_raw s' = load_categories_raw s"
    using h(3) load_categories_raw_after by blast
  moreover have "load_expenses_raw s' = load_expenses_raw s"
    using h(3) load_expenses_raw_after by blast
  ultimately show ?thesis using h by blast
qed

theorem validation_failure_leaves_storage_witness:
  "adicionar two_decimals
      [''data'' \<mapsto> ''2024-02-30'', ''descricao'' \<mapsto> ''feira'', ''valor'' \<mapsto> ''12,50'',
       ''categoria_id'' \<mapsto> ''2''] example_store
     = Inr (\<lparr>flashed = (msg_data_invalida, ''error''), location = ''index''\<rparr>, example_store)
   \<and> editar_lancamento two_decimals ''1''
      [''data'' \<mapsto> ''2024-02-30'', ''descricao'' \<mapsto> ''feira'', ''valor'' \<mapsto> ''12,50'',
       ''categoria_id'' \<mapsto> ''2''] example_store
     = Inr (\<lparr>flashed = (msg_data_invalida, ''error''), location = ''index''\<rparr>, example_store)
   \<and> strptime (field [''data'' \<mapsto> ''2024-02-30'', ''descricao'' \<mapsto> ''feira'',
                       ''valor'' \<mapsto> ''12,50'', ''categoria_id'' \<mapsto> ''2''] ''data'') = None"
proof -
  let ?f = "[''data'' \<mapsto> ''2024-02-30'', ''descricao'' \<mapsto> ''feira'', ''valor'' \<mapsto> ''12,50'',
             ''categoria_id'' \<mapsto> ''2'']"
  have d: "strptime (field ?f ''data'') = None" by code_simp
  have r: "ready example_store" unfolding ready_def by code_simp
  obtain msg s' where h:
    "adicionar two_decimals ?f example_store
       = Inr (\<lparr>flashed = (msg, ''error''), location = ''index''\<rparr>, s')"
    "editar_lancamento two_decimals ''1'' ?f example_store
       = Inr (\<lparr>flashed = (msg, ''error''), location = ''index''\<rparr>, s')"
    "ready example_store \<longrightarrow> s' = example_store"
    using validation_failure_leaves_storage[of ?f example_store _ two_decimals "''1''"] d
    by blast
  have a: "adicionar two_decimals ?f example_store
       = Inr (\<lparr>flashed = (msg_data_invalida, ''error''), location = ''index''\<rparr>, example_store)"
    by code_simp
  with h(1) have "msg = msg_data_invalida" "s' = example_store" by simp_all
  with h d show ?thesis by simp
qed

text \<open>
  C6. An expense creation whose category field, stripped, equals no stored category's id
  and, lowered, no stored category's lowered name: \<open>resolve_category_id\<close> returns \<open>None\<close>,
  the handler answers with an error message (the one for an unknown category when the
  other fields pass their checks), and the storage left is the given one or the one
  that loading the categories leaves: no row is appended to the expenses file.
\<close>

theorem unknown_category_rejected:
  assumes "load_categories_raw s = Inr (cs, s1)"
    and "\<forall>c\<in>set cs. categoria_input f \<noteq> cid c \<and> lower (categoria_input f) \<noteq> lower (nome c)"
  shows "\<exists>msg s'. resolve_category_id (categoria_input f) s
                    = Inr (None, if categoria_input f = [] then s else s1)
              \<and> adicionar fmt2f f s
                    = Inr (\<lparr>flashed = (msg, ''error''), location = ''index''\<rparr>, s')
              \<and> (s' = s \<or> s' = s1)
              \<and> load_expenses_raw s' = load_expenses_raw s
              \<and> (field f ''data'' \<noteq> [] \<and> field f ''descricao'' \<noteq> [] \<and> field f ''valor'' \<noteq> []
                   \<and> categoria_input f \<noteq> [] \<and> strptime (field f ''data'') \<noteq> None
                   \<and> float_py (replace_comma (field f ''valor'')) \<noteq> None
                  \<longrightarrow> msg = msg_categoria_nao_encontrada \<and> s' = s1)"
proof -
  have r: "resolve_category_id (categoria_input f) s
             = Inr (None, if categoria_input f = [] then s else s1)"
    using resolve_category_id_unknown[OF assms(1), of "categoria_input f"] assms(2) by simp
  have e: "ensure_storage s = Inr ((), s1)" using assms(1) by (rule load_categories_raw_ensure)
  have l: "load_expenses_raw s1 = load_expenses_raw s" using e by (rule load_expenses_raw_after)
  show ?thesis
  proof (cases "field f ''data'' = [] \<or> field f ''descricao'' = [] \<or> field f ''valor'' = []
              \<or> categoria_input f = []")
    case True
    then show ?thesis using r by (auto simp add: adicionar_def)
  next
    case filled: False
    show ?thesis
    proof (cases "strptime (field f ''data'')")
      case None
      with filled r show ?thesis by (auto simp add: adicionar_def)
    next
      case (Some d)
      show ?thesis
      proof (cases "float_py (replace_comma (field f ''valor''))")
        case None
        with filled Some r show ?thesis by (auto simp add: adicionar_def)
      next
        case amount: (Some v)
        with filled Some r l show ?thesis by (simp add: adicionar_def truthy_def)
      qed
    qed
  qed
qed

theorem unknown_category_rejected_witness:
  "adicionar two_decimals
      [''data'' \<mapsto> ''2024-03-01'', ''descricao'' \<mapsto> ''feira'', ''valor'' \<mapsto> ''12,50'',
       ''categoria'' \<mapsto> ''Viagem''] example_store
     = Inr (\<lparr>flashed = (msg_categoria_nao_encontrada, ''error''), location = ''index''\<rparr>,
            example_store)
   \<and> resolve_category_id ''Viagem'' example_store = Inr (None, example_store)"
proof -
  let ?f = "[''data'' \<mapsto> ''2024-03-01'', ''descricao'' \<mapsto> ''feira'', ''valor'' \<mapsto> ''12,50'',
             ''categoria'' \<mapsto> ''Viagem'']"
  have i: "categoria_input ?f = ''Viagem''" by code_simp
  have u: "\<forall>c\<in>set [\<lparr>cid = ''1'', nome = ''Outros''\<rparr>, \<lparr>cid = ''2'', nome = ''Casa''\<rparr>].
             categoria_input ?f \<noteq> cid c \<and> lower (categoria_input ?f) \<noteq> lower (nome c)"
    unfolding i by (simp add: lower_def lower_char_def)
  have v: "field ?f ''data'' \<noteq> [] \<and> field ?f ''descricao'' \<noteq> [] \<and> field ?f ''valor'' \<noteq> []
           \<and> categoria_input ?f \<noteq> [] \<and> strptime (field ?f ''data'') \<noteq> None
           \<and> float_py (replace_comma (field ?f ''valor'')) \<noteq> None"
    by code_simp
  show ?thesis
    using unknown_category_rejected[OF example_store_categories u, of two_decimals] v i
    by auto
qed

section \<open>Expenses of a category that is gone\<close>

lemma process_fields [simp]:
  "eid (process fmt2f m e) = eid e"
  "data (process fmt2f m e) = data e"
  "descricao (process fmt2f m e) = descricao e"
  "anotacao (process fmt2f m e) = anotacao e"
  "categoria_id (process fmt2f m e) = categoria_id e"
  by (simp_all add: process_def Let_def)

lemma process_orphan:
  "m (categoria_id e) = None \<Longrightarrow>
   categoria_nome (process fmt2f m e) = ''Categoria removida''
   \<and> categoria (process fmt2f m e) = ''Categoria removida''"
  by (simp add: process_def Let_def)

lemma categories_by_id_None:
  "x \<notin> cid ` set cs \<Longrightarrow>
   map_of (rev (map (\<lambda>c. (cid c, nome c)) (sort_key (\<lambda>c. lower (nome c)) cs))) x = None"
  by (simp add: map_of_eq_None_iff image_image)

text \<open>
  C9. A stored expense whose \<open>categoria_id\<close> is the id of no stored category (the ids of
  the stored expenses being integers, without which \<open>read_expenses\<close> raises): the list
  \<open>read_expenses\<close> returns has an item with that expense's fields whose category name is
  \<open>"Categoria removida"\<close> and whose \<open>categoria_id\<close> is the stored one; the read writes
  nothing beyond first access, and the stored expenses loaded afterwards are the same.
\<close>

theorem orphan_expense_shown_as_removed:
  assumes "load_expenses_raw s = Inr (es, s1)" and "load_categories_raw s = Inr (cs, s1)"
    and "list_all (\<lambda>e. int_py (eid e) \<noteq> None) es"
    and "e \<in> set es" and "categoria_id e \<notin> cid ` set cs"
  shows "\<exists>ps. read_expenses fmt2f s = Inr (ps, s1) \<and> length ps = length es
           \<and> (\<exists>p\<in>set ps. eid p = eid e \<and> data p = data e \<and> descricao p = descricao e
                 \<and> anotacao p = anotacao e \<and> categoria_id p = categoria_id e
                 \<and> categoria_nome p = ''Categoria removida''
                 \<and> categoria p = ''Categoria removida'')
           \<and> load_expenses_raw s1 = Inr (es, s1)
           \<and> (ready s \<longrightarrow> s1 = s)"
proof -
  let ?m = "map_of (rev (map (\<lambda>c. (cid c, nome c)) (sort_key (\<lambda>c. lower (nome c)) cs)))"
  let ?items = "map (process fmt2f ?m) es"
  let ?ps = "sort_key (\<lambda>p. - the (int_py (eid p))) ?items"
  have c1: "load_categories_raw s1 = Inr (cs, s1)"
    using assms(2) by (rule load_categories_raw_result(2))
  have ok: "list_all (\<lambda>p. int_py (eid p) \<noteq> None) ?items"
    using assms(3) by (simp add: list_all_iff)
  have r: "read_expenses fmt2f s = Inr (?ps, s1)"
    using ok by (simp add: read_expenses_def assms(1) read_categories_result[OF c1])
  have "?m (categoria_id e) = None" using assms(5) by (rule categories_by_id_None)
  then have o: "categoria_nome (process fmt2f ?m e) = ''Categoria removida''
                \<and> categoria (process fmt2f ?m e) = ''Categoria removida''"
    by (rule process_orphan)
  have "process fmt2f ?m e \<in> set ?ps" using assms(4) by simp
  then have m: "\<exists>p\<in>set ?ps. eid p = eid e \<and> data p = data e \<and> descricao p = descricao e
                 \<and> anotacao p = anotacao e \<and> categoria_id p = categoria_id e
                 \<and> categoria_nome p = ''Categoria removida''
                 \<and> categoria p = ''Categoria removida''"
    using o process_fields by blast
  have e: "ensure_storage s = Inr ((), s1)" using assms(1) by (rule load_expenses_raw_ensure)
  have "ready s \<longrightarrow> s1 = s" using e by (simp add: ready_def)
  moreover have "length ?ps = length es" by simp
  ultimately show ?thesis
    using r m load_expenses_raw_result(2)[OF assms(1)] by blast
qed

theorem orphan_expense_shown_as_removed_witness:
  "read_expenses two_decimals example_store
     = Inr ([\<lparr>eid = ''3'', data = ''2024-01-03'', descricao = ''cinema'', valor = ''0.00'',
              categoria_id = ''7'', anotacao = '''', valor_float = Finite False 9,
              categoria_nome = ''Categoria removida'', categoria = ''Categoria removida''\<rparr>,
             \<lparr>eid = ''2'', data = ''2024-01-02'', descricao = ''luz'', valor = ''0.00'',
              categoria_id = ''1'', anotacao = ''n'', valor_float = Finite False 2,
              categoria_nome = ''Outros'', categoria = ''Outros''\<rparr>,
             \<lparr>eid = ''1'', data = ''2024-01-01'', descricao = ''mercado'', valor = ''0.00'',
              categoria_id = ''2'', anotacao = '''', valor_float = Finite False (3 / 2),
              categoria_nome = ''Casa'', categoria = ''Casa''\<rparr>], example_store)
   \<and> load_expenses_raw example_store
     = Inr ([\<lparr>eid = ''1'', data = ''2024-01-01'', descricao = ''mercado'', valor = ''1.50'',
              categoria_id = ''2'', anotacao = ''''\<rparr>,
             \<lparr>eid = ''2'', data = ''2024-01-02'', descricao = ''luz'', valor = ''2.00'',
              categoria_id = ''1'', anotacao = ''n''\<rparr>,
             \<lparr>eid = ''3'', data = ''2024-01-03'', descricao = ''cinema'', valor = ''9.00'',
              categoria_id = ''7'', anotacao = ''''\<rparr>], example_store)"
proof -
  let ?es = "[\<lparr>eid = ''1'', data = ''2024-01-01'', descricao = ''mercado'', valor = ''1.50'',
              categoria_id = ''2'', anotacao = ''''\<rparr>,
             \<lparr>eid = ''2'', data = ''2024-01-02'', descricao = ''luz'', valor = ''2.00'',
              categoria_id = ''1'', anotacao = ''n''\<rparr>,
             \<lparr>eid = ''3'', data = ''2024-01-03'', descricao = ''cinema'', valor = ''9.00'',
              categoria_id = ''7'', anotacao = ''''\<rparr>]"
  let ?e = "\<lparr>eid = ''3'', data = ''2024-01-03'', descricao = ''cinema'', valor = ''9.00'',
              categoria_id = ''7'', anotacao = ''''\<rparr>"
  have i: "list_all (\<lambda>e. int_py (eid e) \<noteq> None) ?es" by code_simp
  have m: "?e \<in> set ?es" by simp
  have o: "categoria_id ?e \<notin> cid ` set [\<lparr>cid = ''1'', nome = ''Outros''\<rparr>, \<lparr>cid = ''2'', nome = ''Casa''\<rparr>]"
    by simp
  obtain ps where ps: "read_expenses two_decimals example_store = Inr (ps, example_store)"
    "load_expenses_raw example_store = Inr (?es, example_store)"
    using orphan_expense_shown_as_removed[OF example_store_expenses example_store_categories i m o,
        of two_decimals] by blast
  have "read_expenses two_decimals example_store
     = Inr ([\<lparr>eid = ''3'', data = ''2024-01-03'', descricao = ''cinema'', valor = ''0.00'',
              categoria_id = ''7'', anotacao = '''', valor_float = Finite False 9,
              categoria_nome = ''Categoria removida'', categoria = ''Categoria removida''\<rparr>,
             \<lparr>eid = ''2'', data = ''2024-01-02'', descricao = ''luz'', valor = ''0.00'',
              categoria_id = ''1'', anotacao = ''n'', valor_float = Finite False 2,
              categoria_nome = ''Outros'', categoria = ''Outros''\<rparr>,
             \<lparr>eid = ''1'', data = ''2024-01-01'', descricao = ''mercado'', valor = ''0.00'',
              categoria_id = ''2'', anotacao = '''', valor_float = Finite False (3 / 2),
              categoria_nome = ''Casa'', categoria = ''Casa''\<rparr>], example_store)"
    by code_simp
  with ps(2) show ?thesis by simp
qed

section \<open>Deleting a category\<close>


lemma strip_one [simp]: "strip ''1'' = ''1''"
  by (simp add: strip_def isspace_def)







section \<open>Migration of a legacy categories file\<close>

text \<open>
  C2. A legacy categories file that lists \<open>Outros\<close> after another name: the migration
  numbers the names in their order, so that id \<open>"1"\<close> goes to \<open>Comida\<close> and \<open>Outros\<close> gets
  id \<open>"2"\<close>. The migrated file has the current header, and each legacy name once with an
  id of its own, but the default category is not the one with id \<open>"1"\<close>.
\<close>

theorem legacy_outros_not_first:
  "load_categories_raw legacy_store
   = Inr ([\<lparr>cid = ''1'', nome = ''Comida''\<rparr>, \<lparr>cid = ''2'', nome = ''Outros''\<rparr>],
       \<lparr>categories_file = Some [[''id'', ''nome''], [''1'', ''Comida''], [''2'', ''Outros'']],
        expenses_file =
          Some [[''id'', ''data'', ''descricao'', ''valor'', ''categoria_id'', ''anotacao'']],
        journal = [Wrote CATEGORIES_FILE, Wrote EXPENSES_FILE]\<rparr>)"
  by code_simp

section \<open>Amounts\<close>










section \<open>Rows appended to a file\<close>






lemma canonical_open_w_categories [simp]:
  "canonical s \<Longrightarrow> canonical (open_w CATEGORIES_FILE ([''id'', ''nome''] # rows) s)"
  by (simp add: canonical_def open_w_def)

lemma canonical_open_w_expenses [simp]:
  "canonical s \<Longrightarrow> canonical (open_w EXPENSES_FILE (expenses_header # rows) s)"
  by (simp add: canonical_def open_w_def)

lemma canonical_open_a [simp]: "canonical s \<Longrightarrow> canonical (open_a p rows s)"
  by (auto simp: canonical_def open_a_def contents_def split: option.splits list.splits path.splits)



section \<open>What each operation leaves\<close>








section \<open>The id cells of the expenses file\<close>

lemma ids_as_written_open_w_categories [simp]:
  "ids_as_written (open_w CATEGORIES_FILE rows s) = ids_as_written s"
  by (simp add: ids_as_written_def open_w_def)

lemma ids_as_written_open_a_categories [simp]:
  "ids_as_written (open_a CATEGORIES_FILE rows s) = ids_as_written s"
  by (simp add: ids_as_written_def open_a_def)



section \<open>The next id\<close>




lemma int_ids_set: "set cs = set cs' \<Longrightarrow> int_ids cs = None \<longleftrightarrow> int_ids cs' = None"
proof -
  assume s: "set cs = set cs'"
  have "\<And>xs. int_ids xs = None \<longleftrightarrow> (\<exists>c\<in>set xs. int_py (cid c) = None)"
  proof -
    fix xs show "int_ids xs = None \<longleftrightarrow> (\<exists>c\<in>set xs. int_py (cid c) = None)"
      by (induction xs) (auto split: option.splits)
  qed
  with s show ?thesis by simp
qed









section \<open>Lists of ids and of names under one change\<close>



lemma ids_ok_distinct: "ids_ok ids \<Longrightarrow> distinct ids"
  by (auto simp: ids_ok_def distinct_map)

lemma rename_first_cids [simp]: "map cid (rename_first x nn cs) = map cid cs"
  by (induction cs) auto







section \<open>One operation on well-formed storage\<close>

lemma outcome_simps [simp]:
  "outcome (Inr (x, s)) = s" "outcome (Inl (e, s)) = s"
  by (simp_all add: outcome_def)

lemma category_change_refl [simp]: "category_change cs cs"
  by (simp add: category_change_def)

lemma expense_change_refl [simp]: "expense_change es es"
  by (simp add: expense_change_def)



lemma stripped_eid: "clean_expense e \<Longrightarrow> eid (stripped e) = eid e"
  by (simp add: stripped_def clean_expense_def)

lemma update_first_eids [simp]: "map eid (update_first x new es) = map eid es"
  by (induction es) auto








section \<open>The handlers as operations\<close>





section \<open>Every operation keeps the storage well formed\<close>







section \<open>Ids\<close>




section \<open>Names\<close>



section \<open>The migration of a legacy categories file\<close>

lemma normalize_seen: "fst (normalize seen ns) = seen \<union> set ns"
proof (induction ns arbitrary: seen)
  case Nil
  show ?case by simp
next
  case (Cons n ns)
  show ?case
  proof (cases "n \<in> seen")
    case True
    then show ?thesis using Cons.IH[of seen] by auto
  next
    case False
    obtain seen' xs where n: "normalize (insert n seen) ns = (seen', xs)"
      by (cases "normalize (insert n seen) ns")
    then have "seen' = insert n seen \<union> set ns" using Cons.IH[of "insert n seen"] by simp
    with False n show ?thesis by simp
  qed
qed

lemma normalize_names:
  "set (snd (normalize seen ns)) = set ns - seen \<and> distinct (snd (normalize seen ns))"
proof (induction ns arbitrary: seen)
  case Nil
  show ?case by simp
next
  case (Cons n ns)
  show ?case
  proof (cases "n \<in> seen")
    case True
    then show ?thesis using Cons.IH[of seen] by auto
  next
    case False
    obtain seen' xs where n: "normalize (insert n seen) ns = (seen', xs)"
      by (cases "normalize (insert n seen) ns")
    then have "set xs = set ns - insert n seen \<and> distinct xs"
      using Cons.IH[of "insert n seen"] by simp
    with False n show ?thesis by auto
  qed
qed

lemma normalize_first:
  "ns \<noteq> [] \<Longrightarrow> hd ns \<notin> seen \<Longrightarrow> hd (snd (normalize seen ns)) = hd ns"
  by (cases ns) (auto split: prod.splits)

lemma str_int_one: "str_int 1 = ''1''"
  by (simp add: str_int_def str_nat.simps digit_char_def)

lemma numbered_rows_first: "hd (numbered_rows (n # ns)) = [''1'', n]"
  by (simp add: numbered_rows_def str_int_one)

lemma numbered_rows_names: "map (\<lambda>r. r ! 1) (numbered_rows names) = names"
proof -
  have "map (\<lambda>r. r ! 1) (numbered_rows names) = map snd (enumerate 1 names)"
    by (simp add: numbered_rows_def o_def case_prod_beta)
  then show ?thesis by simp
qed

lemma numbered_rows_ids_distinct: "distinct (map (\<lambda>r. r ! 0) (numbered_rows names))"
proof -
  have a: "map (\<lambda>r. r ! 0) (numbered_rows names)
             = map (\<lambda>i. str_int (int i)) (map fst (enumerate 1 names))"
    by (simp only: numbered_rows_def map_map o_def case_prod_beta nth_Cons_0)
  have "distinct (map fst (enumerate 1 names))"
    by (simp only: map_fst_enumerate distinct_upt)
  moreover have "inj_on (\<lambda>i::nat. str_int (int i)) (set (map fst (enumerate 1 names)))"
    by (rule inj_onI) (auto dest: str_int_inj)
  ultimately have "distinct (map (\<lambda>i. str_int (int i)) (map fst (enumerate 1 names)))"
    by (subst distinct_map) blast
  then show ?thesis unfolding a .
qed

text \<open>
  What the migration of a legacy file does in general: the new file has the current
  header and, numbered from 1 in this order, the legacy names in the order of their first
  occurrence, with \<open>Outros\<close> put first when it is not among them. So \<open>Outros\<close> is there,
  every name is there once, and the ids differ; \<open>Outros\<close> is the first, the one numbered
  \<open>"1"\<close>, when it was absent or was the first legacy name, and only then.
\<close>

lemma legacy_migration:
  assumes "categories_file s = Some fl" and "filter nonblank fl = first # rest"
    and "\<not> (map strip first \<noteq> [] \<and> hd (map strip first) = ''id'')"
  shows "\<exists>names. upgrade_categories_file s
                   = Inr ((), open_w CATEGORIES_FILE ([''id'', ''nome''] # numbered_rows names) s)
           \<and> distinct names \<and> set names = insert ''Outros'' (set (legacy_names rest))
           \<and> names \<noteq> []
           \<and> (hd names = ''Outros''
                \<longleftrightarrow> ''Outros'' \<notin> set (legacy_names rest) \<or> hd (legacy_names rest) = ''Outros'')"
proof -
  let ?ns = "legacy_names rest"
  obtain seen xs where n: "normalize {} ?ns = (seen, xs)" by (cases "normalize {} ?ns")
  have seen: "seen = set ?ns" using normalize_seen[of "{}" ?ns] n by simp
  have xs: "set xs = set ?ns" "distinct xs" using normalize_names[of "{}" ?ns] n by simp_all
  let ?names = "if ''Outros'' \<notin> seen then ''Outros'' # xs else xs"
  have c: "(map strip first \<noteq> [] \<and> hd (map strip first) = ''id'') = False"
    using assms(3) by blast
  have u: "upgrade_categories_file s
             = Inr ((), open_w CATEGORIES_FILE ([''id'', ''nome''] # numbered_rows ?names) s)"
    using assms(3) n
    by (auto simp add: upgrade_categories_file_def Let_def assms(1) assms(2))
  have d: "distinct ?names" using xs seen by simp
  have st: "set ?names = insert ''Outros'' (set ?ns)" using xs seen by auto
  have ne: "?names \<noteq> []" using st by auto
  have h: "hd ?names = ''Outros''
             \<longleftrightarrow> ''Outros'' \<notin> set ?ns \<or> hd ?ns = ''Outros''"
  proof (cases "''Outros'' \<in> set ?ns")
    case False
    with seen show ?thesis by simp
  next
    case True
    then have "?ns \<noteq> []" by auto
    then have "hd xs = hd ?ns" using normalize_first[of ?ns "{}"] n by simp
    with True seen show ?thesis by simp
  qed
  from u d st ne h show ?thesis by blast
qed

end
